theory Spec2Isabelle
  imports Main
begin

section \<open>Errors, strings and the engine's failures\<close>

text \<open>
  Go strings and byte slices are sequences of bytes; an Isabelle \<open>char\<close> is one byte, so
  both are \<open>char list\<close>. A Go error is a message, possibly wrapping another error
  (\<open>fmt.Errorf("...: %w", err)\<close>): \<open>Wrap pre e post\<close> renders as \<open>pre\<close>, the message of
  \<open>e\<close>, \<open>post\<close>. A function returning \<open>error\<close> returns \<open>error option\<close> (\<open>None\<close> is \<open>nil\<close>).
\<close>

type_synonym bytes = string

datatype error = Err string | Wrap string error string

fun Error :: "error \<Rightarrow> string" where
  "Error (Err m) = m"
| "Error (Wrap pre e post) = pre @ Error e @ post"

text \<open>\<open>strings.HasPrefix\<close> and \<open>strings.Contains\<close>.\<close>

fun HasPrefix :: "string \<Rightarrow> string \<Rightarrow> bool" where
  "HasPrefix s [] = True"
| "HasPrefix [] (p # ps) = False"
| "HasPrefix (c # cs) (p # ps) = (c = p \<and> HasPrefix cs ps)"

fun Contains :: "string \<Rightarrow> string \<Rightarrow> bool" where
  "Contains [] sub = (sub = [])"
| "Contains (c # cs) sub = (HasPrefix (c # cs) sub \<or> Contains cs sub)"

text \<open>
  Every call into the SQL engine or the remote API can fail for reasons outside the
  program (a constraint, a lost connection, a cancelled context). The source has an error
  branch at each call site, so the model takes the engine's answer at each call site as
  an input: \<open>fails c = Some e\<close> when the call at site \<open>c\<close> returns the error \<open>e\<close> and has no
  effect.
\<close>

datatype call =
    InsertPeer | AddRemoteCall | DeletePeer | RemoveRemoteCall
  | SelectPeer | UpdateLastSync
  | SelectPeersToMigrate | ScanPeer string | RowsErr | UpdatePassword string

section \<open>Federation peers and their credentials (credentials.go)\<close>

subsection \<open>Peer names\<close>

definition is_letter :: "char \<Rightarrow> bool" where
  "is_letter c = ((97 \<le> (of_char c :: nat) \<and> (of_char c :: nat) \<le> 122)
                \<or> (65 \<le> (of_char c :: nat) \<and> (of_char c :: nat) \<le> 90))"

definition is_digit :: "char \<Rightarrow> bool" where
  "is_digit c = (48 \<le> (of_char c :: nat) \<and> (of_char c :: nat) \<le> 57)"

definition is_name_char :: "char \<Rightarrow> bool" where
  "is_name_char c = (is_letter c \<or> is_digit c \<or> c = CHR ''_'' \<or> c = CHR ''-'')"

text \<open>\<open>validPeerNameRegex.MatchString\<close> for \<^verbatim>\<open>^[a-zA-Z][a-zA-Z0-9_-]*$\<close>.\<close>

fun validPeerNameRegex :: "string \<Rightarrow> bool" where
  "validPeerNameRegex [] = False"
| "validPeerNameRegex (c # cs) = (is_letter c \<and> list_all is_name_char cs)"

definition validatePeerName :: "string \<Rightarrow> error option" where
  "validatePeerName nm =
     (if nm = [] then Some (Err ''peer name cannot be empty'')
      else if length nm > 64 then Some (Err ''peer name too long (max 64 characters)'')
      else if \<not> validPeerNameRegex nm then
        Some (Err ''peer name must start with a letter and contain only alphanumeric characters, hyphens, and underscores'')
      else None)"

subsection \<open>Encryption with the credential key\<close>

text \<open>
  AES and GCM are Go's standard library (\<open>crypto/aes\<close>, \<open>crypto/cipher\<close>), not code of this
  repository: the sealing and opening functions of the AEAD are parameters of the model.
  \<open>gcm_seal A key nonce plaintext\<close> is the ciphertext followed by the tag;
  \<open>gcm_open A key nonce ct\<close> is \<open>None\<close> when authentication fails. \<open>rand.Reader\<close> is a
  stream of bytes; \<open>io.ReadFull\<close> takes the next \<open>n\<close> of them and fails on a short read.
\<close>

record aead =
  gcm_seal :: "bytes \<Rightarrow> bytes \<Rightarrow> bytes \<Rightarrow> bytes"
  gcm_open :: "bytes \<Rightarrow> bytes \<Rightarrow> bytes \<Rightarrow> bytes option"

definition gcmNonceSize :: nat where
  "gcmNonceSize = 12"

text \<open>
  \<open>strconv.Itoa\<close> on a length: the decimal digits. \<open>aes.NewCipher\<close> is called for its
  error only; \<open>KeySizeError\<close> prints the size of the refused key.
\<close>

fun strconv_Itoa :: "nat \<Rightarrow> string" where
  "strconv_Itoa n =
     (if n < 10 then [char_of (48 + n)]
      else strconv_Itoa (n div 10) @ [char_of (48 + n mod 10)])"

declare strconv_Itoa.simps [simp del]

definition aes_NewCipher :: "bytes \<Rightarrow> error option" where
  "aes_NewCipher key =
     (if length key = 16 \<or> length key = 24 \<or> length key = 32 then None
      else Some (Err (''crypto/aes: invalid key size '' @ strconv_Itoa (length key))))"

definition io_ReadFull :: "bytes \<Rightarrow> nat \<Rightarrow> (error + bytes) \<times> bytes" where
  "io_ReadFull rd n =
     (if length rd < n then (Inl (Err ''unexpected EOF''), [])
      else (Inr (take n rd), drop n rd))"

definition encryptWithKey :: "aead \<Rightarrow> bytes \<Rightarrow> string \<Rightarrow> bytes \<Rightarrow> (error + bytes) \<times> bytes" where
  "encryptWithKey A rd plaintext key =
     (case aes_NewCipher key of
        Some e \<Rightarrow> (Inl e, rd)
      | None \<Rightarrow>
          (case io_ReadFull rd gcmNonceSize of
             (Inl e, rd') \<Rightarrow> (Inl e, rd')
           | (Inr nonce, rd') \<Rightarrow> (Inr (nonce @ gcm_seal A key nonce plaintext), rd')))"

definition decryptWithKey :: "aead \<Rightarrow> bytes \<Rightarrow> bytes \<Rightarrow> error + string" where
  "decryptWithKey A encrypted key =
     (case aes_NewCipher key of
        Some e \<Rightarrow> Inl e
      | None \<Rightarrow>
          if length encrypted < gcmNonceSize then Inl (Err ''ciphertext too short'')
          else (case gcm_open A key (take gcmNonceSize encrypted) (drop gcmNonceSize encrypted) of
                  None \<Rightarrow> Inl (Err ''cipher: message authentication failed'')
                | Some plaintext \<Rightarrow> Inr plaintext))"

subsection \<open>The store\<close>

text \<open>
  A row of \<open>federation_peers\<close>; \<open>name\<close> is its key (the upsert's \<open>ON DUPLICATE KEY\<close>).
  \<open>username\<close>, \<open>password_encrypted\<close> and \<open>last_sync\<close> can be NULL. Times are instants
  counted as naturals.
\<close>

record peer_row =
  peer_name :: string
  remote_url :: string
  username :: "string option"
  password_encrypted :: "bytes option"
  sovereignty :: string
  last_sync :: "nat option"
  created_at :: nat
  updated_at :: nat

record FederationPeer =
  Name :: string
  RemoteURL :: string
  Username :: string
  Password :: string
  Sovereignty :: string
  LastSync :: "nat option"
  CreatedAt :: nat
  UpdatedAt :: nat

text \<open>
  The part of \<open>DoltStore\<close> the federation code reads and writes: its fields \<open>dbPath\<close> and
  \<open>credentialKey\<close> (\<open>None\<close> is the nil slice), whether \<open>s.db\<close> is nil, the
  \<open>federation_peers\<close> table behind \<open>s.db\<close>, and the remotes the engine knows (name, URL).
\<close>

record DoltStore =
  dbPath :: string
  credentialKey :: "bytes option"
  db_nil :: bool
  federation_peers :: "peer_row list"
  remotes :: "(string \<times> string) list"

definition encryptPassword :: "aead \<Rightarrow> bytes \<Rightarrow> DoltStore \<Rightarrow> string \<Rightarrow> error + bytes option" where
  "encryptPassword A rd s password =
     (if password = [] then Inr None
      else (case credentialKey s of
              None \<Rightarrow> Inl (Err ''credential encryption key not initialized'')
            | Some key \<Rightarrow>
                (case fst (encryptWithKey A rd password key) of
                   Inl e \<Rightarrow> Inl e
                 | Inr c \<Rightarrow> Inr (Some c))))"

definition decryptPassword :: "aead \<Rightarrow> DoltStore \<Rightarrow> bytes option \<Rightarrow> error + string" where
  "decryptPassword A s encrypted =
     (case encrypted of
        None \<Rightarrow> Inr []
      | Some enc \<Rightarrow>
          if length enc = 0 then Inr []
          else (case credentialKey s of
                  None \<Rightarrow> Inl (Err ''credential encryption key not initialized'')
                | Some key \<Rightarrow> decryptWithKey A enc key))"

text \<open>
  Modelled from the spec: \<open>AddRemote\<close> and \<open>RemoveRemote\<close> of the underlying engine are
  not in the sources; the spec names them an opaque interface. The engine's answer is the
  input \<open>fails\<close>; a call that succeeds adds or removes the named remote.
\<close>

definition AddRemote :: "(call \<Rightarrow> error option) \<Rightarrow> DoltStore \<Rightarrow> string \<Rightarrow> string \<Rightarrow> error option \<times> DoltStore" where
  "AddRemote fails s nm url =
     (case fails AddRemoteCall of
        Some e \<Rightarrow> (Some e, s)
      | None \<Rightarrow> (None, s\<lparr>remotes := remotes s @ [(nm, url)]\<rparr>))"

definition RemoveRemote :: "(call \<Rightarrow> error option) \<Rightarrow> DoltStore \<Rightarrow> string \<Rightarrow> error option \<times> DoltStore" where
  "RemoveRemote fails s nm =
     (case fails RemoveRemoteCall of
        Some e \<Rightarrow> (Some e, s)
      | None \<Rightarrow> (None, s\<lparr>remotes := filter (\<lambda>r. fst r \<noteq> nm) (remotes s)\<rparr>))"

text \<open>
  The upsert \<open>INSERT ... ON DUPLICATE KEY UPDATE\<close>: a row with that name has its
  \<open>remote_url\<close>, \<open>username\<close>, \<open>password_encrypted\<close>, \<open>sovereignty\<close> and \<open>updated_at\<close> set;
  otherwise a new row is added, its \<open>last_sync\<close> NULL and both timestamps the current time.
\<close>

definition upsert_peer :: "nat \<Rightarrow> string \<Rightarrow> string \<Rightarrow> string \<Rightarrow> bytes option \<Rightarrow> string \<Rightarrow> peer_row list \<Rightarrow> peer_row list" where
  "upsert_peer now nm url usr pw sov tbl =
     (if list_ex (\<lambda>r. peer_name r = nm) tbl
      then map (\<lambda>r. if peer_name r = nm
                     then r\<lparr>remote_url := url, username := Some usr, password_encrypted := pw,
                            sovereignty := sov, updated_at := now\<rparr>
                     else r) tbl
      else tbl @ [\<lparr>peer_name = nm, remote_url = url, username = Some usr,
                   password_encrypted = pw, sovereignty = sov, last_sync = None,
                   created_at = now, updated_at = now\<rparr>])"

definition AddFederationPeer ::
  "aead \<Rightarrow> (call \<Rightarrow> error option) \<Rightarrow> bytes \<Rightarrow> nat \<Rightarrow> DoltStore \<Rightarrow> FederationPeer \<Rightarrow> error option \<times> DoltStore" where
  "AddFederationPeer A fails rd now s peer =
     (case validatePeerName (Name peer) of
        Some e \<Rightarrow> (Some (Wrap ''invalid peer name: '' e []), s)
      | None \<Rightarrow>
          (case (if Password peer \<noteq> [] then encryptPassword A rd s (Password peer) else Inr None) of
             Inl e \<Rightarrow> (Some (Wrap ''failed to encrypt password: '' e []), s)
           | Inr encryptedPwd \<Rightarrow>
               (case fails InsertPeer of
                  Some e \<Rightarrow> (Some (Wrap ''failed to add federation peer: '' e []), s)
                | None \<Rightarrow>
                    (let s1 = s\<lparr>federation_peers :=
                                 upsert_peer now (Name peer) (RemoteURL peer) (Username peer)
                                   encryptedPwd (Sovereignty peer) (federation_peers s)\<rparr>
                     in (case AddRemote fails s1 (Name peer) (RemoteURL peer) of
                           (Some e, s2) \<Rightarrow>
                             if \<not> Contains (Error e) ''already exists''
                             then (Some (Wrap ''failed to add dolt remote: '' e []), s2)
                             else (None, s2)
                         | (None, s2) \<Rightarrow> (None, s2))))))"

definition RemoveFederationPeer :: "(call \<Rightarrow> error option) \<Rightarrow> DoltStore \<Rightarrow> string \<Rightarrow> error option \<times> DoltStore" where
  "RemoveFederationPeer fails s nm =
     (case fails DeletePeer of
        Some e \<Rightarrow> (Some (Wrap ''failed to remove federation peer: '' e []), s)
      | None \<Rightarrow>
          (let s1 = s\<lparr>federation_peers := filter (\<lambda>r. peer_name r \<noteq> nm) (federation_peers s)\<rparr>
           in (None, snd (RemoveRemote fails s1 nm))))"

subsection \<open>Looking a peer up, and running with its credentials\<close>

text \<open>
  Modelled from the spec: the sentinel \<open>storage.ErrNotFound\<close> and the helper
  \<open>wrapExecError\<close> are not in the sources. \<open>GetFederationPeer\<close> "returns the decrypted peer
  or NotFoundError"; the sentinel is a message, and \<open>wrapExecError op err\<close> wraps the
  engine's error with the operation's name.
\<close>

definition ErrNotFound :: error where
  "ErrNotFound = Err ''not found''"

definition wrapExecError :: "string \<Rightarrow> error option \<Rightarrow> error option" where
  "wrapExecError opn err = (case err of None \<Rightarrow> None | Some e \<Rightarrow> Some (Wrap (opn @ '': '') e []))"

definition GetFederationPeer ::
  "aead \<Rightarrow> (call \<Rightarrow> error option) \<Rightarrow> DoltStore \<Rightarrow> string \<Rightarrow> error + FederationPeer" where
  "GetFederationPeer A fails s nm =
     (case fails SelectPeer of
        Some e \<Rightarrow> Inl (Wrap ''failed to get federation peer: '' e [])
      | None \<Rightarrow>
          (case find (\<lambda>r. peer_name r = nm) (federation_peers s) of
             None \<Rightarrow> Inl (Wrap [] ErrNotFound ('': federation peer '' @ nm))
           | Some r \<Rightarrow>
               (case (if 0 < length (case password_encrypted r of None \<Rightarrow> [] | Some c \<Rightarrow> c)
                      then decryptPassword A s (password_encrypted r) else Inr []) of
                  Inl e \<Rightarrow> Inl (Wrap ''failed to decrypt password: '' e [])
                | Inr pw \<Rightarrow>
                    Inr \<lparr>Name = peer_name r, RemoteURL = remote_url r,
                         Username = (case username r of None \<Rightarrow> [] | Some u \<Rightarrow> u),
                         Password = pw, Sovereignty = sovereignty r, LastSync = last_sync r,
                         CreatedAt = created_at r, UpdatedAt = updated_at r\<rparr>)))"

definition updatePeerLastSync ::
  "(call \<Rightarrow> error option) \<Rightarrow> nat \<Rightarrow> DoltStore \<Rightarrow> string \<Rightarrow> error option \<times> DoltStore" where
  "updatePeerLastSync fails now s nm =
     (case fails UpdateLastSync of
        Some e \<Rightarrow> (wrapExecError ''update peer last sync'' (Some e), s)
      | None \<Rightarrow>
          (wrapExecError ''update peer last sync'' None,
           s\<lparr>federation_peers :=
                map (\<lambda>r. if peer_name r = nm then r\<lparr>last_sync := Some now\<rparr> else r)
                  (federation_peers s)\<rparr>))"

text \<open>
  The process environment is a map from variable names to values. \<open>os.Setenv\<close> refuses an
  empty key, a key with \<open>=\<close> or a NUL byte, and a value with a NUL byte; \<open>os.Unsetenv\<close>
  removes the variable.
\<close>

type_synonym environment = "string \<rightharpoonup> string"

definition os_Setenv :: "environment \<Rightarrow> string \<Rightarrow> string \<Rightarrow> error option \<times> environment" where
  "os_Setenv env k v =
     (if k = [] \<or> CHR ''='' \<in> set k \<or> CHR 0x00 \<in> set k \<or> CHR 0x00 \<in> set v
      then (Some (Err ''setenv: invalid argument''), env)
      else (None, env(k \<mapsto> v)))"

definition os_Unsetenv :: "environment \<Rightarrow> string \<Rightarrow> error option \<times> environment" where
  "os_Unsetenv env k = (None, env(k := None))"

text \<open>
  \<open>setFederationCredentials\<close> returns the cleanup closure, here with the environment it
  leaves.
\<close>

definition setFederationCredentials ::
  "string \<Rightarrow> string \<Rightarrow> environment \<Rightarrow> (environment \<Rightarrow> environment) \<times> environment" where
  "setFederationCredentials usr pw env =
     (let env1 = (if usr \<noteq> [] then snd (os_Setenv env ''DOLT_REMOTE_USER'' usr) else env);
          env2 = (if pw \<noteq> [] then snd (os_Setenv env1 ''DOLT_REMOTE_PASSWORD'' pw) else env1)
      in (\<lambda>e. snd (os_Unsetenv (snd (os_Unsetenv e ''DOLT_REMOTE_USER'')) ''DOLT_REMOTE_PASSWORD''),
          env2))"

text \<open>
  What the callback can read and change: the process environment and the store. A call
  of the callback returns an error value or panics, and leaves a process state.
  \<open>federationEnvMutex\<close> serialises the callers; one call is modelled here, so the lock is
  not part of the state.
\<close>

record process =
  environ :: environment
  store :: DoltStore

datatype 'a outcome = Returns 'a | Panics

definition withPeerCredentials ::
  "aead \<Rightarrow> (call \<Rightarrow> error option) \<Rightarrow> nat \<Rightarrow> process \<Rightarrow> string
     \<Rightarrow> (process \<Rightarrow> error option outcome \<times> process) \<Rightarrow> error option outcome \<times> process" where
  "withPeerCredentials A fails now p peerName fn =
     (case GetFederationPeer A fails (store p) peerName of
        Inl e \<Rightarrow> (Returns (Some (Wrap ''failed to get peer credentials: '' e [])), p)
      | Inr peer \<Rightarrow>
          (let has_credentials = (Username peer \<noteq> [] \<or> Password peer \<noteq> []);
               credentials_set = setFederationCredentials (Username peer) (Password peer) (environ p);
               p1 = (if has_credentials then p\<lparr>environ := snd credentials_set\<rparr> else p);
               run_deferred =
                 (\<lambda>q. if has_credentials then q\<lparr>environ := fst credentials_set (environ q)\<rparr> else q)
           in (case fn p1 of
                 (Panics, p2) \<Rightarrow> (Panics, run_deferred p2)
               | (Returns err, p2) \<Rightarrow>
                   (let p3 = (if err = None
                              then p2\<lparr>store := snd (updatePeerLastSync fails now (store p2) peerName)\<rparr>
                              else p2)
                    in (Returns err, run_deferred p3)))))"

subsection \<open>Migrating stored passwords to the new key\<close>

text \<open>SHA-256 is Go's standard library: the hash function is a parameter.\<close>

definition legacyEncryptionKey :: "(bytes \<Rightarrow> bytes) \<Rightarrow> DoltStore \<Rightarrow> bytes" where
  "legacyEncryptionKey sha256 s = sha256 (dbPath s @ ''beads-federation-key-v1'')"

text \<open>
  The rows the SELECT returns: name and ciphertext of every peer whose
  \<open>password_encrypted\<close> is not NULL and not empty, in table order.
\<close>

definition rows_to_migrate :: "peer_row list \<Rightarrow> (string \<times> bytes) list" where
  "rows_to_migrate tbl =
     concat (map (\<lambda>r. case password_encrypted r of
                         None \<Rightarrow> []
                       | Some c \<Rightarrow> if 0 < length c then [(peer_name r, c)] else []) tbl)"

text \<open>The first loop: scan each row, decrypt with the old key, skip what does not decrypt.\<close>

fun scan_rows ::
  "aead \<Rightarrow> (call \<Rightarrow> error option) \<Rightarrow> bytes \<Rightarrow> (string \<times> bytes) list \<Rightarrow> (string \<times> string) list
     \<Rightarrow> error + (string \<times> string) list" where
  "scan_rows A fails oldKey [] toMigrate = Inr toMigrate"
| "scan_rows A fails oldKey ((nm, encrypted) # rows) toMigrate =
     (case fails (ScanPeer nm) of
        Some e \<Rightarrow> Inl (Wrap ''failed to scan peer for migration: '' e [])
      | None \<Rightarrow>
          (case decryptWithKey A encrypted oldKey of
             Inl e \<Rightarrow> scan_rows A fails oldKey rows toMigrate
           | Inr plaintext \<Rightarrow> scan_rows A fails oldKey rows (toMigrate @ [(nm, plaintext)])))"

text \<open>The second loop: re-encrypt each entry with the new key and update its row.\<close>

fun reencrypt ::
  "aead \<Rightarrow> (call \<Rightarrow> error option) \<Rightarrow> bytes \<Rightarrow> (string \<times> string) list \<Rightarrow> bytes \<Rightarrow> DoltStore
     \<Rightarrow> error option \<times> DoltStore" where
  "reencrypt A fails newKey [] rd s = (None, s)"
| "reencrypt A fails newKey ((nm, plaintext) # entries) rd s =
     (case encryptWithKey A rd plaintext newKey of
        (Inl e, rd') \<Rightarrow>
          (Some (Wrap (''failed to re-encrypt password for peer '' @ nm @ '': '') e []), s)
      | (Inr encrypted, rd') \<Rightarrow>
          (case fails (UpdatePassword nm) of
             Some e \<Rightarrow>
               (Some (Wrap (''failed to update encrypted password for peer '' @ nm @ '': '') e []), s)
           | None \<Rightarrow>
               reencrypt A fails newKey entries rd'
                 (s\<lparr>federation_peers :=
                      map (\<lambda>r. if peer_name r = nm then r\<lparr>password_encrypted := Some encrypted\<rparr> else r)
                        (federation_peers s)\<rparr>)))"

definition migrateCredentialKeys ::
  "aead \<Rightarrow> (bytes \<Rightarrow> bytes) \<Rightarrow> (call \<Rightarrow> error option) \<Rightarrow> bytes \<Rightarrow> DoltStore \<Rightarrow> bytes
     \<Rightarrow> error option \<times> DoltStore" where
  "migrateCredentialKeys A sha256 fails rd s newKey =
     (if db_nil s then (None, s)
      else (let oldKey = legacyEncryptionKey sha256 s
            in (case fails SelectPeersToMigrate of
                  Some e \<Rightarrow> (None, s)
                | None \<Rightarrow>
                    (case scan_rows A fails oldKey (rows_to_migrate (federation_peers s)) [] of
                       Inl e \<Rightarrow> (Some e, s)
                     | Inr toMigrate \<Rightarrow>
                         (case fails RowsErr of
                            Some e \<Rightarrow> (Some (Wrap ''failed to iterate peers for migration: '' e []), s)
                          | None \<Rightarrow> reencrypt A fails newKey toMigrate rd s)))))"

section \<open>Renaming an issue ID and its references (the rename cascade)\<close>

subsection \<open>Tables and the connection\<close>

text \<open>
  The rows of the tables the cascade touches, with the columns its statements name.
  \<open>id\<close> is the primary key of \<open>issues\<close> and of \<open>wisps\<close> (the source: ``updating the
  primary key while child tables still reference the old ID''). \<open>old_value\<close> and
  \<open>new_value\<close> of an event can be NULL.
\<close>

record issue_row =
  iss_id :: string
  iss_title :: string
  iss_description :: string
  iss_design :: string
  iss_acceptance_criteria :: string
  iss_notes :: string
  iss_updated_at :: nat

record dep_row =
  dep_issue_id :: string
  dep_depends_on_id :: string
  dep_type :: string

record event_row =
  ev_issue_id :: string
  ev_event_type :: string
  ev_actor :: string
  ev_old_value :: "string option"
  ev_new_value :: "string option"

record label_row =
  lbl_issue_id :: string
  lbl_label :: string

record comment_row =
  cmt_issue_id :: string
  cmt_author :: string
  cmt_body :: string

record snapshot_row =
  snap_issue_id :: string
  snap_content :: string

record counter_row =
  cc_parent_id :: string
  cc_last_child :: nat

record database =
  issues :: "issue_row list"
  dependencies :: "dep_row list"
  events :: "event_row list"
  labels :: "label_row list"
  comments :: "comment_row list"
  issue_snapshots :: "snapshot_row list"
  compaction_snapshots :: "snapshot_row list"
  child_counters :: "counter_row list"
  wisps :: "issue_row list"
  wisp_dependencies :: "dep_row list"
  wisp_events :: "event_row list"
  wisp_labels :: "label_row list"
  wisp_comments :: "comment_row list"

text \<open>
  A connection: the committed tables and the session variable \<open>FOREIGN_KEY_CHECKS\<close>,
  which a rollback does not restore.
\<close>

record connection =
  tables :: database
  foreign_key_checks :: bool

text \<open>The fields of \<open>types.Issue\<close> the rename writes.\<close>

record Issue =
  Title :: string
  Description :: string
  Design :: string
  AcceptanceCriteria :: string
  Notes :: string

text \<open>The call sites of the two renaming operations; each can fail, as above.\<close>

datatype tx_call =
    BeginTx | DisableFK | UpdatePrimary | RowsAffected
  | UpdateDependenciesIssue | UpdateDependenciesDependsOn | UpdateEvents | UpdateLabels
  | UpdateComments | UpdateIssueSnapshots | UpdateCompactionSnapshots | UpdateChildCounters
  | UpdateWispDependenciesIssue | UpdateWispDependenciesDependsOn | UpdateWispEvents
  | UpdateWispLabels | UpdateWispComments
  | InsertRenameEvent | EnableFK | DeferredEnableFK | Commit
  | UpdateIssueIdPrefix | UpdateDependsOnPrefix

subsection \<open>Statements\<close>

text \<open>
  \<open>UPDATE t SET col = new WHERE col = old\<close>, for a column given by its selector and its
  update function.
\<close>

definition set_where ::
  "('r \<Rightarrow> string) \<Rightarrow> ((string \<Rightarrow> string) \<Rightarrow> 'r \<Rightarrow> 'r) \<Rightarrow> string \<Rightarrow> string \<Rightarrow> 'r list \<Rightarrow> 'r list" where
  "set_where col col_update old new rows =
     map (\<lambda>r. if col r = old then col_update (\<lambda>_. new) r else r) rows"

text \<open>
  The UPDATE of the primary row. The engine refuses to give two rows the same primary
  key; otherwise the matching rows are rewritten and their number is the result's
  \<open>RowsAffected\<close>.
\<close>

definition update_primary ::
  "(tx_call \<Rightarrow> error option) \<Rightarrow> nat \<Rightarrow> issue_row list \<Rightarrow> string \<Rightarrow> string \<Rightarrow> Issue
     \<Rightarrow> error + (nat \<times> issue_row list)" where
  "update_primary fails now rows oldID newID issue =
     (case fails UpdatePrimary of
        Some e \<Rightarrow> Inl e
      | None \<Rightarrow>
          if oldID \<noteq> newID \<and> list_ex (\<lambda>r. iss_id r = oldID) rows
               \<and> list_ex (\<lambda>r. iss_id r = newID) rows
          then Inl (Err ''duplicate entry for key PRIMARY'')
          else Inr (length (filter (\<lambda>r. iss_id r = oldID) rows),
                    map (\<lambda>r. if iss_id r = oldID
                              then r\<lparr>iss_id := newID, iss_title := Title issue,
                                     iss_description := Description issue,
                                     iss_design := Design issue,
                                     iss_acceptance_criteria := AcceptanceCriteria issue,
                                     iss_notes := Notes issue, iss_updated_at := now\<rparr>
                              else r) rows))"

text \<open>
  A sequence of statements inside the transaction, each with the message its error is
  wrapped in: the first one that fails ends the sequence with that error.
\<close>

fun exec_all ::
  "(tx_call \<Rightarrow> error option) \<Rightarrow> (tx_call \<times> string \<times> (database \<Rightarrow> database)) list \<Rightarrow> database
     \<Rightarrow> error + database" where
  "exec_all fails [] d = Inr d"
| "exec_all fails ((site, msg, stmt) # rest) d =
     (case fails site of
        Some e \<Rightarrow> Inl (Wrap msg e [])
      | None \<Rightarrow> exec_all fails rest (stmt d))"

definition renamed_event :: "string \<Rightarrow> string \<Rightarrow> string \<Rightarrow> event_row" where
  "renamed_event newID actor oldID =
     \<lparr>ev_issue_id = newID, ev_event_type = ''renamed'', ev_actor = actor,
      ev_old_value = Some oldID, ev_new_value = Some newID\<rparr>"

text \<open>The wisp-side statements, shared by both renames, in the source's order.\<close>

definition wisp_cascade :: "string \<Rightarrow> string \<Rightarrow> (tx_call \<times> string \<times> (database \<Rightarrow> database)) list" where
  "wisp_cascade oldID newID =
     [(UpdateWispDependenciesIssue, ''failed to update issue_id in wisp_dependencies: '',
        \<lambda>d. d\<lparr>wisp_dependencies :=
                 set_where dep_issue_id dep_issue_id_update oldID newID (wisp_dependencies d)\<rparr>),
      (UpdateWispDependenciesDependsOn, ''failed to update depends_on_id in wisp_dependencies: '',
        \<lambda>d. d\<lparr>wisp_dependencies :=
                 set_where dep_depends_on_id dep_depends_on_id_update oldID newID (wisp_dependencies d)\<rparr>),
      (UpdateWispEvents, ''failed to update wisp_events: '',
        \<lambda>d. d\<lparr>wisp_events := set_where ev_issue_id ev_issue_id_update oldID newID (wisp_events d)\<rparr>),
      (UpdateWispLabels, ''failed to update wisp_labels: '',
        \<lambda>d. d\<lparr>wisp_labels := set_where lbl_issue_id lbl_issue_id_update oldID newID (wisp_labels d)\<rparr>),
      (UpdateWispComments, ''failed to update wisp_comments: '',
        \<lambda>d. d\<lparr>wisp_comments :=
                 set_where cmt_issue_id cmt_issue_id_update oldID newID (wisp_comments d)\<rparr>)]"

definition issue_cascade :: "string \<Rightarrow> string \<Rightarrow> (tx_call \<times> string \<times> (database \<Rightarrow> database)) list" where
  "issue_cascade oldID newID =
     [(UpdateDependenciesIssue, ''failed to update issue_id in dependencies: '',
        \<lambda>d. d\<lparr>dependencies := set_where dep_issue_id dep_issue_id_update oldID newID (dependencies d)\<rparr>),
      (UpdateDependenciesDependsOn, ''failed to update depends_on_id in dependencies: '',
        \<lambda>d. d\<lparr>dependencies :=
                 set_where dep_depends_on_id dep_depends_on_id_update oldID newID (dependencies d)\<rparr>),
      (UpdateEvents, ''failed to update events: '',
        \<lambda>d. d\<lparr>events := set_where ev_issue_id ev_issue_id_update oldID newID (events d)\<rparr>),
      (UpdateLabels, ''failed to update labels: '',
        \<lambda>d. d\<lparr>labels := set_where lbl_issue_id lbl_issue_id_update oldID newID (labels d)\<rparr>),
      (UpdateComments, ''failed to update comments: '',
        \<lambda>d. d\<lparr>comments := set_where cmt_issue_id cmt_issue_id_update oldID newID (comments d)\<rparr>),
      (UpdateIssueSnapshots, ''failed to update issue_snapshots: '',
        \<lambda>d. d\<lparr>issue_snapshots :=
                 set_where snap_issue_id snap_issue_id_update oldID newID (issue_snapshots d)\<rparr>),
      (UpdateCompactionSnapshots, ''failed to update compaction_snapshots: '',
        \<lambda>d. d\<lparr>compaction_snapshots :=
                 set_where snap_issue_id snap_issue_id_update oldID newID (compaction_snapshots d)\<rparr>),
      (UpdateChildCounters, ''failed to update child_counters: '',
        \<lambda>d. d\<lparr>child_counters :=
                 set_where cc_parent_id cc_parent_id_update oldID newID (child_counters d)\<rparr>)]"

subsection \<open>updateIssueID, updateWispID and UpdateIssueID\<close>

definition updateIssueID ::
  "(tx_call \<Rightarrow> error option) \<Rightarrow> nat \<Rightarrow> database \<Rightarrow> string \<Rightarrow> string \<Rightarrow> Issue \<Rightarrow> string
     \<Rightarrow> error + database" where
  "updateIssueID fails now d oldID newID issue actor =
     (case update_primary fails now (issues d) oldID newID issue of
        Inl e \<Rightarrow> Inl (Wrap ''failed to update issue ID: '' e [])
      | Inr (rows, issues') \<Rightarrow>
          (case fails RowsAffected of
             Some e \<Rightarrow> Inl (Wrap ''failed to get rows affected: '' e [])
           | None \<Rightarrow>
               if rows = 0 then Inl (Err (''issue not found: '' @ oldID))
               else exec_all fails
                      (issue_cascade oldID newID @ wisp_cascade oldID newID @
                       [(InsertRenameEvent, ''failed to record rename event: '',
                          \<lambda>d. d\<lparr>events := events d @ [renamed_event newID actor oldID]\<rparr>)])
                      (d\<lparr>issues := issues'\<rparr>)))"

definition updateWispID ::
  "(tx_call \<Rightarrow> error option) \<Rightarrow> nat \<Rightarrow> database \<Rightarrow> string \<Rightarrow> string \<Rightarrow> Issue \<Rightarrow> string
     \<Rightarrow> error + database" where
  "updateWispID fails now d oldID newID issue actor =
     (case update_primary fails now (wisps d) oldID newID issue of
        Inl e \<Rightarrow> Inl (Wrap ''failed to update wisp ID: '' e [])
      | Inr (rows, wisps') \<Rightarrow>
          (case fails RowsAffected of
             Some e \<Rightarrow> Inl (Wrap ''failed to get rows affected: '' e [])
           | None \<Rightarrow>
               if rows = 0 then Inl (Err (''wisp not found: '' @ oldID))
               else exec_all fails
                      (wisp_cascade oldID newID @
                       [(InsertRenameEvent, ''failed to record wisp rename event: '',
                          \<lambda>d. d\<lparr>wisp_events := wisp_events d @ [renamed_event newID actor oldID]\<rparr>)])
                      (d\<lparr>wisps := wisps'\<rparr>)))"

text \<open>
  Modelled from the spec: \<open>isActiveWisp\<close> is not in the sources. The spec's step 1:
  ``classify the old ID as wisp or issue by probing the wisps relation''.
\<close>

definition isActiveWisp :: "connection \<Rightarrow> string \<Rightarrow> bool" where
  "isActiveWisp c oldID = list_ex (\<lambda>r. iss_id r = oldID) (wisps (tables c))"

text \<open>
  \<open>UpdateIssueID\<close>. Statements of the transaction work on a copy of the tables that
  becomes the connection's tables at a successful commit and is dropped otherwise (the
  deferred \<open>tx.Rollback()\<close>). \<open>SET FOREIGN_KEY_CHECKS\<close> acts on the session at once. The
  deferred \<open>SET FOREIGN_KEY_CHECKS = 1\<close> runs on every return after the variable was
  cleared; its error is dropped. After \<open>tx.Commit()\<close> the transaction is done and the
  deferred statement has no effect.
\<close>

definition UpdateIssueID ::
  "(tx_call \<Rightarrow> error option) \<Rightarrow> nat \<Rightarrow> connection \<Rightarrow> string \<Rightarrow> string \<Rightarrow> Issue \<Rightarrow> string
     \<Rightarrow> error option \<times> connection" where
  "UpdateIssueID fails now c oldID newID issue actor =
     (let isWisp = isActiveWisp c oldID
      in (case fails BeginTx of
            Some e \<Rightarrow> (Some (Wrap ''failed to begin transaction: '' e []), c)
          | None \<Rightarrow>
              (case fails DisableFK of
                 Some e \<Rightarrow> (Some (Wrap ''failed to disable foreign key checks: '' e []), c)
               | None \<Rightarrow>
                   (let c1 = c\<lparr>foreign_key_checks := False\<rparr>;
                        deferred_enable =
                          (\<lambda>k. case fails DeferredEnableFK of
                                  Some e \<Rightarrow> k
                                | None \<Rightarrow> k\<lparr>foreign_key_checks := True\<rparr>)
                    in (case (if isWisp
                              then updateWispID fails now (tables c) oldID newID issue actor
                              else updateIssueID fails now (tables c) oldID newID issue actor) of
                          Inl e \<Rightarrow> (Some e, deferred_enable c1)
                        | Inr tx_tables \<Rightarrow>
                            (case fails EnableFK of
                               Some e \<Rightarrow>
                                 (Some (Wrap ''failed to re-enable foreign key checks: '' e []),
                                  deferred_enable c1)
                             | None \<Rightarrow>
                                 (case fails Commit of
                                    Some e \<Rightarrow> (Some e, c1\<lparr>foreign_key_checks := True\<rparr>)
                                  | None \<Rightarrow>
                                      (None, \<lparr>tables = tx_tables, foreign_key_checks = True\<rparr>))))))))"

subsection \<open>RenameDependencyPrefix\<close>

text \<open>
  The SQL functions of its two statements, on byte strings (IDs are ASCII): \<open>CONCAT\<close>,
  \<open>LENGTH\<close>, \<open>SUBSTRING(s, pos)\<close> (the rest of \<open>s\<close> from the 1-based position \<open>pos\<close>), and
  \<open>s LIKE pattern\<close>, where \<open>%\<close> in the pattern stands for any sequence of characters, \<open>_\<close>
  for any one character, and a backslash makes the character after it literal.
\<close>

definition sql_CONCAT :: "string \<Rightarrow> string \<Rightarrow> string" where
  "sql_CONCAT a b = a @ b"

definition sql_LENGTH :: "string \<Rightarrow> nat" where
  "sql_LENGTH s = length s"

definition sql_SUBSTRING :: "string \<Rightarrow> nat \<Rightarrow> string" where
  "sql_SUBSTRING s pos = (if pos = 0 then [] else drop (pos - 1) s)"

fun sql_LIKE :: "string \<Rightarrow> string \<Rightarrow> bool" where
  "sql_LIKE s [] = (s = [])"
| "sql_LIKE [] (p # ps) = (p = CHR ''%'' \<and> sql_LIKE [] ps)"
| "sql_LIKE (c # cs) (p # ps) =
     (if p = CHR ''%'' then sql_LIKE (c # cs) ps \<or> sql_LIKE cs (p # ps)
      else if p = CHR ''_'' then sql_LIKE cs ps
      else if p = CHR 0x5C \<and> ps \<noteq> [] then c = hd ps \<and> sql_LIKE cs (tl ps)
      else c = p \<and> sql_LIKE cs ps)"

definition RenameDependencyPrefix ::
  "(tx_call \<Rightarrow> error option) \<Rightarrow> connection \<Rightarrow> string \<Rightarrow> string \<Rightarrow> error option \<times> connection" where
  "RenameDependencyPrefix fails c oldPrefix newPrefix =
     (case fails BeginTx of
        Some e \<Rightarrow> (Some (Wrap ''failed to begin transaction: '' e []), c)
      | None \<Rightarrow>
          (case exec_all fails
                  [(UpdateIssueIdPrefix, ''failed to update issue_id in dependencies: '',
                     \<lambda>d. d\<lparr>dependencies :=
                       map (\<lambda>r. if sql_LIKE (dep_issue_id r) (sql_CONCAT oldPrefix ''%'')
                                 then r\<lparr>dep_issue_id :=
                                          sql_CONCAT newPrefix
                                            (sql_SUBSTRING (dep_issue_id r) (sql_LENGTH oldPrefix + 1))\<rparr>
                                 else r) (dependencies d)\<rparr>),
                   (UpdateDependsOnPrefix, ''failed to update depends_on_id in dependencies: '',
                     \<lambda>d. d\<lparr>dependencies :=
                       map (\<lambda>r. if sql_LIKE (dep_depends_on_id r) (sql_CONCAT oldPrefix ''%'')
                                 then r\<lparr>dep_depends_on_id :=
                                          sql_CONCAT newPrefix
                                            (sql_SUBSTRING (dep_depends_on_id r) (sql_LENGTH oldPrefix + 1))\<rparr>
                                 else r) (dependencies d)\<rparr>)]
                  (tables c) of
             Inl e \<Rightarrow> (Some e, c)
           | Inr d' \<Rightarrow>
               (case fails Commit of
                  Some e \<Rightarrow> (Some e, c)
                | None \<Rightarrow> (None, c\<lparr>tables := d'\<rparr>))))"

section \<open>Classifying identifiers (the doctor's ID-format check)\<close>

text \<open>
  Modelled from the spec: \<open>isHashID\<close> is not in the sources; only its test table
  \<open>TestIsHashID\<close> is. The spec: an identifier is hash-based when, ``after removing the
  shared prefix and a dot-separated hierarchical tail, the leaf is either (a) at least 5
  characters and all-lowercase-alphanumeric including at least one letter, or (b) fewer
  than 5 characters containing at least one lowercase letter. Uppercase letters, special
  characters, empty suffixes, and pure-numeric strings under five digits are rejected.''
  The prefix ends at the last hyphen (prefixes contain hyphens, as in \<open>test-wisp-abc\<close>); an
  identifier without a hyphen has no leaf.
\<close>

definition is_lower :: "char \<Rightarrow> bool" where
  "is_lower c = (97 \<le> (of_char c :: nat) \<and> (of_char c :: nat) \<le> 122)"

definition after_last_hyphen :: "string \<Rightarrow> string option" where
  "after_last_hyphen s =
     (if CHR ''-'' \<in> set s then Some (rev (takeWhile (\<lambda>c. c \<noteq> CHR ''-'') (rev s))) else None)"

definition leaf_of :: "string \<Rightarrow> string option" where
  "leaf_of s =
     (case after_last_hyphen s of
        None \<Rightarrow> None
      | Some suffix \<Rightarrow> Some (takeWhile (\<lambda>c. c \<noteq> CHR ''.'') suffix))"

definition isHashID :: "string \<Rightarrow> bool" where
  "isHashID s =
     (case leaf_of s of
        None \<Rightarrow> False
      | Some leaf \<Rightarrow>
          leaf \<noteq> [] \<and> list_all (\<lambda>c. is_lower c \<or> is_digit c) leaf
          \<and> ((5 \<le> length leaf \<and> list_ex is_lower leaf)
              \<or> (length leaf < 5 \<and> list_ex is_lower leaf)))"

text \<open>The rows of the test table \<open>TestIsHashID\<close>: identifier and expected result.\<close>

definition TestIsHashID :: "(string \<times> bool) list" where
  "TestIsHashID =
     [(''bd-0jkc'', True), (''bd-88'', False), (''bd-12345'', True), (''bd-0088'', False),
      (''bd-1'', False), (''bd-42'', False), (''abc'', False), (''bd-'', False),
      (''bd-0jkc.1'', True), (''bd-1.2'', False), (''bd-ABCD'', False), (''bd-ab!c'', False)]"

section \<open>Concrete inputs\<close>

text \<open>
  A stand-in AEAD for evaluating the functions on concrete inputs (sealing appends the key
  as the tag, opening checks it), a store whose credential key was never initialised (as
  \<open>initCredentialKey\<close> leaves it when \<open>dbPath\<close> is empty), a store with a 32-byte key, and a
  peer with a password.
\<close>

definition toy_aead :: aead where
  "toy_aead = \<lparr>gcm_seal = (\<lambda>key nonce p. p @ key),
               gcm_open = (\<lambda>key nonce c.
                  if length key \<le> length c \<and> drop (length c - length key) c = key
                  then Some (take (length c - length key) c) else None)\<rparr>"

definition store_without_key :: DoltStore where
  "store_without_key =
     \<lparr>dbPath = [], credentialKey = None, db_nil = False, federation_peers = [], remotes = []\<rparr>"

definition store_with_key :: DoltStore where
  "store_with_key =
     \<lparr>dbPath = ''/repo/.beads/dolt'', credentialKey = Some (replicate 32 (CHR ''k'')),
      db_nil = False, federation_peers = [], remotes = []\<rparr>"

definition peer_alice :: FederationPeer where
  "peer_alice =
     \<lparr>Name = ''peer1'', RemoteURL = ''https://host/db'', Username = ''alice'',
      Password = ''secret'', Sovereignty = ''T1'', LastSync = None, CreatedAt = 0, UpdatedAt = 0\<rparr>"

text \<open>A store with one peer that has a user name and no password, and a callback that
  succeeds only while \<open>DOLT_REMOTE_USER\<close> is set to that name.\<close>

definition store_with_peer :: DoltStore where
  "store_with_peer =
     \<lparr>dbPath = ''/repo/.beads/dolt'', credentialKey = Some (replicate 32 (CHR ''k'')),
      db_nil = False,
      federation_peers =
        [\<lparr>peer_name = ''peer1'', remote_url = ''https://host/db'', username = Some ''alice'',
          password_encrypted = None, sovereignty = ''T1'', last_sync = None,
          created_at = 1, updated_at = 1\<rparr>],
      remotes = [(''peer1'', ''https://host/db'')]\<rparr>"

text \<open>
  The same store before its credential key was initialised, and the peer of that row with
  a new URL and a password.
\<close>

definition store_with_peer_without_key :: DoltStore where
  "store_with_peer_without_key = store_with_peer\<lparr>credentialKey := None\<rparr>"

definition peer_alice_moved :: FederationPeer where
  "peer_alice_moved = peer_alice\<lparr>RemoteURL := ''https://elsewhere/db''\<rparr>"

definition sync_needing_user :: "process \<Rightarrow> error option outcome \<times> process" where
  "sync_needing_user q =
     (if environ q ''DOLT_REMOTE_USER'' = Some ''alice'' then (Returns None, q)
      else (Returns (Some (Err ''authentication required'')), q))"

text \<open>
  A stand-in for SHA-256 (the first 32 bytes of the padded input) and a store with two
  peers: the password of \<open>old\<close> is sealed under the legacy key of that store, the password
  of \<open>other\<close> under another key.
\<close>

definition toy_sha256 :: "bytes \<Rightarrow> bytes" where
  "toy_sha256 b = take 32 (b @ replicate 32 (CHR ''0''))"

definition legacy_store :: DoltStore where
  "legacy_store =
     \<lparr>dbPath = ''/db'', credentialKey = None, db_nil = False,
      federation_peers =
        [\<lparr>peer_name = ''old'', remote_url = ''u1'', username = Some ''alice'',
          password_encrypted = Some (''nonce-000001'' @ ''pw1'' @ ''/dbbeads-federation-key-v1000000''),
          sovereignty = ''T1'', last_sync = None, created_at = 1, updated_at = 1\<rparr>,
         \<lparr>peer_name = ''other'', remote_url = ''u2'', username = None,
          password_encrypted = Some (''nonce-000002'' @ ''pw2'' @ replicate 32 (CHR ''x'')),
          sovereignty = ''T2'', last_sync = None, created_at = 2, updated_at = 2\<rparr>],
      remotes = []\<rparr>"

text \<open>
  Inputs for the renames: an engine on which every call succeeds, one whose context is
  cancelled once \<open>SET FOREIGN_KEY_CHECKS = 0\<close> has run (every later call fails), the
  tables of \<open>TestUpdateIssueIDUpdatesWispTables\<close> (an issue, two wisps and wisp-side rows
  that reference the issue), and those tables after the issue was renamed and renamed
  back.
\<close>

definition no_faults :: "tx_call \<Rightarrow> error option" where
  "no_faults site = None"

definition context_cancelled_after_disable :: "tx_call \<Rightarrow> error option" where
  "context_cancelled_after_disable site =
     (if site = BeginTx \<or> site = DisableFK then None else Some (Err ''context canceled''))"

definition empty_database :: database where
  "empty_database =
     \<lparr>issues = [], dependencies = [], events = [], labels = [], comments = [],
      issue_snapshots = [], compaction_snapshots = [], child_counters = [],
      wisps = [], wisp_dependencies = [], wisp_events = [], wisp_labels = [], wisp_comments = []\<rparr>"

definition test_issue :: Issue where
  "test_issue = \<lparr>Title = ''Test issue'', Description = [], Design = [],
                  AcceptanceCriteria = [], Notes = []\<rparr>"

definition tracker :: connection where
  "tracker =
     \<lparr>tables = empty_database
        \<lparr>issues := [\<lparr>iss_id = ''test-old1'', iss_title = ''Test issue'', iss_description = [],
                      iss_design = [], iss_acceptance_criteria = [], iss_notes = [],
                      iss_updated_at = 1\<rparr>],
         events := [\<lparr>ev_issue_id = ''test-old1'', ev_event_type = ''created'', ev_actor = ''test'',
                     ev_old_value = None, ev_new_value = None\<rparr>],
         wisps := [\<lparr>iss_id = ''test-wisp-abc'', iss_title = ''Test wisp'', iss_description = [],
                     iss_design = [], iss_acceptance_criteria = [], iss_notes = [],
                     iss_updated_at = 1\<rparr>,
                   \<lparr>iss_id = ''test-wisp-def'', iss_title = ''Another wisp'', iss_description = [],
                     iss_design = [], iss_acceptance_criteria = [], iss_notes = [],
                     iss_updated_at = 1\<rparr>],
         wisp_dependencies :=
           [\<lparr>dep_issue_id = ''test-wisp-abc'', dep_depends_on_id = ''test-old1'', dep_type = ''blocks''\<rparr>,
            \<lparr>dep_issue_id = ''test-old1'', dep_depends_on_id = ''test-wisp-def'', dep_type = ''blocks''\<rparr>],
         wisp_events := [\<lparr>ev_issue_id = ''test-old1'', ev_event_type = ''test_event'',
                          ev_actor = ''test'', ev_old_value = None, ev_new_value = None\<rparr>],
         wisp_labels := [\<lparr>lbl_issue_id = ''test-old1'', lbl_label = ''bug''\<rparr>],
         wisp_comments := [\<lparr>cmt_issue_id = ''test-old1'', cmt_author = ''test'',
                            cmt_body = ''test comment''\<rparr>]\<rparr>,
      foreign_key_checks = True\<rparr>"

definition renamed_there_and_back :: connection where
  "renamed_there_and_back =
     snd (UpdateIssueID no_faults 3
            (snd (UpdateIssueID no_faults 2 tracker ''test-old1'' ''test-new1'' test_issue ''test''))
            ''test-new1'' ''test-old1'' test_issue ''test'')"

text \<open>A dependency of an issue of another project, \<open>webxui\<close>, on an issue of \<open>web_ui\<close>.\<close>

definition other_project_db :: connection where
  "other_project_db =
     \<lparr>tables = empty_database
        \<lparr>dependencies :=
           [\<lparr>dep_issue_id = ''webxui-7'', dep_depends_on_id = ''web_ui-2'', dep_type = ''blocks''\<rparr>]\<rparr>,
      foreign_key_checks = True\<rparr>"

section \<open>Verified properties\<close>

subsection \<open>Adding and removing federation peers\<close>

lemma validatePeerName_None_iff:
  "validatePeerName nm = None \<longleftrightarrow> (nm \<noteq> [] \<and> length nm \<le> 64 \<and> validPeerNameRegex nm)"
  by (auto simp: validatePeerName_def)

text \<open>
  Claim C7, as amended. \<open>AddFederationPeer\<close> returns the validation error
  (\<open>invalid peer name: ...\<close>) exactly when the name is empty, longer than 64 bytes or does
  not match the pattern, and then the store is unchanged: no row is upserted and no remote
  is added. For a name that passes, the row is upserted when the password can be encrypted
  (it is empty, or the credential key is initialised and the nonce can be drawn) and the
  engine executes the INSERT. With a non-empty password and no credential key the call
  returns \<open>failed to encrypt password: credential encryption key not initialized\<close> and the
  store is unchanged; so it is for every error of the encryption, and when the engine
  refuses the INSERT the call returns \<open>failed to add federation peer: ...\<close> with the store
  unchanged.
\<close>

theorem AddFederationPeer_name_validation:
  "((\<exists>e. fst (AddFederationPeer A fails rd now s peer) = Some (Wrap ''invalid peer name: '' e []))
      \<longleftrightarrow> (Name peer = [] \<or> 64 < length (Name peer) \<or> \<not> validPeerNameRegex (Name peer)))
   \<and> ((Name peer = [] \<or> 64 < length (Name peer) \<or> \<not> validPeerNameRegex (Name peer))
        \<longrightarrow> snd (AddFederationPeer A fails rd now s peer) = s)
   \<and> (validPeerNameRegex (Name peer) \<and> length (Name peer) \<le> 64
        \<and> encryptPassword A rd s (Password peer) = Inr pw \<and> fails InsertPeer = None
        \<longrightarrow> federation_peers (snd (AddFederationPeer A fails rd now s peer))
              = upsert_peer now (Name peer) (RemoteURL peer) (Username peer) pw
                  (Sovereignty peer) (federation_peers s))
   \<and> (validPeerNameRegex (Name peer) \<and> length (Name peer) \<le> 64
        \<and> Password peer \<noteq> [] \<and> credentialKey s = None
        \<longrightarrow> AddFederationPeer A fails rd now s peer
              = (Some (Wrap ''failed to encrypt password: ''
                         (Err ''credential encryption key not initialized'') []), s))
   \<and> (validPeerNameRegex (Name peer) \<and> length (Name peer) \<le> 64
        \<and> encryptPassword A rd s (Password peer) = Inl err
        \<longrightarrow> AddFederationPeer A fails rd now s peer
              = (Some (Wrap ''failed to encrypt password: '' err []), s))
   \<and> (validPeerNameRegex (Name peer) \<and> length (Name peer) \<le> 64
        \<and> encryptPassword A rd s (Password peer) = Inr pw \<and> fails InsertPeer = Some err
        \<longrightarrow> AddFederationPeer A fails rd now s peer
              = (Some (Wrap ''failed to add federation peer: '' err []), s))"
proof (cases "validatePeerName (Name peer)")
  case None
  then have ok: "Name peer \<noteq> []" "length (Name peer) \<le> 64" "validPeerNameRegex (Name peer)"
    by (simp_all add: validatePeerName_None_iff)
  have not_validation:
    "\<not> (\<exists>e. fst (AddFederationPeer A fails rd now s peer) = Some (Wrap ''invalid peer name: '' e []))"
    using None
    by (auto simp: AddFederationPeer_def AddRemote_def Let_def
             split: sum.splits option.splits prod.splits)
  have upserted:
    "encryptPassword A rd s (Password peer) = Inr pw \<and> fails InsertPeer = None
       \<longrightarrow> federation_peers (snd (AddFederationPeer A fails rd now s peer))
             = upsert_peer now (Name peer) (RemoteURL peer) (Username peer) pw
                 (Sovereignty peer) (federation_peers s)"
    using None
    by (auto simp: AddFederationPeer_def AddRemote_def Let_def encryptPassword_def
             split: sum.splits option.splits prod.splits)
  have no_key:
    "Password peer \<noteq> [] \<and> credentialKey s = None
       \<longrightarrow> AddFederationPeer A fails rd now s peer
             = (Some (Wrap ''failed to encrypt password: ''
                        (Err ''credential encryption key not initialized'') []), s)"
    using None by (simp add: AddFederationPeer_def encryptPassword_def)
  have not_encrypted:
    "encryptPassword A rd s (Password peer) = Inl err
       \<longrightarrow> AddFederationPeer A fails rd now s peer
             = (Some (Wrap ''failed to encrypt password: '' err []), s)"
    using None by (auto simp: AddFederationPeer_def encryptPassword_def)
  have not_inserted:
    "encryptPassword A rd s (Password peer) = Inr pw \<and> fails InsertPeer = Some err
       \<longrightarrow> AddFederationPeer A fails rd now s peer
             = (Some (Wrap ''failed to add federation peer: '' err []), s)"
    using None by (auto simp: AddFederationPeer_def encryptPassword_def)
  show ?thesis using not_validation upserted no_key not_encrypted not_inserted ok by simp
next
  case (Some e)
  then have bad: "Name peer = [] \<or> 64 < length (Name peer) \<or> \<not> validPeerNameRegex (Name peer)"
    using validatePeerName_None_iff [of "Name peer"] by auto
  have "AddFederationPeer A fails rd now s peer = (Some (Wrap ''invalid peer name: '' e []), s)"
    using Some by (simp add: AddFederationPeer_def)
  then show ?thesis using bad by auto
qed


theorem AddFederationPeer_name_validation_witness:
  "validPeerNameRegex (Name peer_alice) \<and> length (Name peer_alice) \<le> 64
   \<and> encryptPassword toy_aead (replicate 12 (CHR ''n'')) store_with_key (Password peer_alice)
       = Inr (Some (replicate 12 (CHR ''n'') @ ''secret'' @ replicate 32 (CHR ''k'')))
   \<and> federation_peers
        (snd (AddFederationPeer toy_aead (\<lambda>c. None) (replicate 12 (CHR ''n'')) 7 store_with_key peer_alice))
       = [\<lparr>peer_name = ''peer1'', remote_url = ''https://host/db'', username = Some ''alice'',
           password_encrypted = Some (replicate 12 (CHR ''n'') @ ''secret'' @ replicate 32 (CHR ''k'')),
           sovereignty = ''T1'', last_sync = None, created_at = 7, updated_at = 7\<rparr>]
   \<and> federation_peers
        (snd (AddFederationPeer toy_aead (\<lambda>c. None) (replicate 12 (CHR ''n'')) 7 store_with_peer
                peer_alice_moved))
       = [\<lparr>peer_name = ''peer1'', remote_url = ''https://elsewhere/db'', username = Some ''alice'',
           password_encrypted = Some (replicate 12 (CHR ''n'') @ ''secret'' @ replicate 32 (CHR ''k'')),
           sovereignty = ''T1'', last_sync = None, created_at = 1, updated_at = 7\<rparr>]
   \<and> Password peer_alice_moved \<noteq> [] \<and> credentialKey store_with_peer_without_key = None
   \<and> AddFederationPeer toy_aead (\<lambda>c. None) (replicate 12 (CHR ''n'')) 7 store_with_peer_without_key
        peer_alice_moved
       = (Some (Wrap ''failed to encrypt password: ''
                  (Err ''credential encryption key not initialized'') []),
          store_with_peer_without_key)
   \<and> map remote_url (federation_peers store_with_peer_without_key) = [''https://host/db'']
   \<and> AddFederationPeer toy_aead (\<lambda>c. if c = InsertPeer then Some (Err ''connection lost'') else None)
        (replicate 12 (CHR ''n'')) 7 store_with_peer peer_alice_moved
       = (Some (Wrap ''failed to add federation peer: '' (Err ''connection lost'') []), store_with_peer)
   \<and> \<not> validPeerNameRegex (Name (peer_alice\<lparr>Name := ''1peer''\<rparr>))
   \<and> (\<exists>e. fst (AddFederationPeer toy_aead (\<lambda>c. None) (replicate 12 (CHR ''n'')) 7 store_with_peer
                  (peer_alice\<lparr>Name := ''1peer''\<rparr>))
            = Some (Wrap ''invalid peer name: '' e []))
   \<and> snd (AddFederationPeer toy_aead (\<lambda>c. None) (replicate 12 (CHR ''n'')) 7 store_with_peer
             (peer_alice\<lparr>Name := ''1peer''\<rparr>))
       = store_with_peer"
proof -
  let ?nonce = "replicate 12 (CHR ''n'')"
  let ?sealed = "Some (?nonce @ ''secret'' @ replicate 32 (CHR ''k''))"
  let ?lost = "\<lambda>c. if c = InsertPeer then Some (Err ''connection lost'') else None"
  let ?bad = "peer_alice\<lparr>Name := ''1peer''\<rparr>"
  have name_ok: "validPeerNameRegex (Name peer_alice) \<and> length (Name peer_alice) \<le> 64"
    by (simp add: peer_alice_def is_letter_def is_name_char_def is_digit_def)
  have moved_ok: "validPeerNameRegex (Name peer_alice_moved) \<and> length (Name peer_alice_moved) \<le> 64"
    by (simp add: peer_alice_moved_def peer_alice_def is_letter_def is_name_char_def is_digit_def)
  have name_bad: "\<not> validPeerNameRegex (Name ?bad)"
    by (simp add: is_letter_def)
  have enc: "encryptPassword toy_aead ?nonce store_with_key (Password peer_alice) = Inr ?sealed"
    by (simp add: encryptPassword_def encryptWithKey_def aes_NewCipher_def io_ReadFull_def
          gcmNonceSize_def toy_aead_def store_with_key_def peer_alice_def)
  have enc_moved: "encryptPassword toy_aead ?nonce store_with_peer (Password peer_alice_moved) = Inr ?sealed"
    by (simp add: encryptPassword_def encryptWithKey_def aes_NewCipher_def io_ReadFull_def
          gcmNonceSize_def toy_aead_def store_with_peer_def peer_alice_moved_def peer_alice_def)
  have no_key: "Password peer_alice_moved \<noteq> [] \<and> credentialKey store_with_peer_without_key = None"
    by (simp add: peer_alice_moved_def peer_alice_def store_with_peer_without_key_def)
  have inserted: "federation_peers
        (snd (AddFederationPeer toy_aead (\<lambda>c. None) ?nonce 7 store_with_key peer_alice))
       = [\<lparr>peer_name = ''peer1'', remote_url = ''https://host/db'', username = Some ''alice'',
           password_encrypted = ?sealed,
           sovereignty = ''T1'', last_sync = None, created_at = 7, updated_at = 7\<rparr>]"
    using name_ok enc
      AddFederationPeer_name_validation [of toy_aead "\<lambda>c. None" ?nonce 7 store_with_key peer_alice ?sealed]
    by (simp add: upsert_peer_def store_with_key_def peer_alice_def)
  have updated: "federation_peers
        (snd (AddFederationPeer toy_aead (\<lambda>c. None) ?nonce 7 store_with_peer peer_alice_moved))
       = [\<lparr>peer_name = ''peer1'', remote_url = ''https://elsewhere/db'', username = Some ''alice'',
           password_encrypted = ?sealed,
           sovereignty = ''T1'', last_sync = None, created_at = 1, updated_at = 7\<rparr>]"
    using moved_ok enc_moved
      AddFederationPeer_name_validation [of toy_aead "\<lambda>c. None" ?nonce 7 store_with_peer
        peer_alice_moved ?sealed]
    by (simp add: upsert_peer_def store_with_peer_def peer_alice_moved_def peer_alice_def)
  have refused: "AddFederationPeer toy_aead (\<lambda>c. None) ?nonce 7 store_with_peer_without_key
        peer_alice_moved
       = (Some (Wrap ''failed to encrypt password: ''
                  (Err ''credential encryption key not initialized'') []),
          store_with_peer_without_key)"
    using moved_ok no_key
      AddFederationPeer_name_validation [of toy_aead "\<lambda>c. None" ?nonce 7
        store_with_peer_without_key peer_alice_moved]
    by simp
  have kept: "map remote_url (federation_peers store_with_peer_without_key) = [''https://host/db'']"
    by (simp add: store_with_peer_without_key_def store_with_peer_def)
  have lost: "AddFederationPeer toy_aead ?lost ?nonce 7 store_with_peer peer_alice_moved
       = (Some (Wrap ''failed to add federation peer: '' (Err ''connection lost'') []), store_with_peer)"
    using moved_ok enc_moved
      AddFederationPeer_name_validation [of toy_aead ?lost ?nonce 7 store_with_peer
        peer_alice_moved ?sealed "Err ''connection lost''"]
    by simp
  have invalid: "(\<exists>e. fst (AddFederationPeer toy_aead (\<lambda>c. None) ?nonce 7 store_with_peer ?bad)
            = Some (Wrap ''invalid peer name: '' e []))
     \<and> snd (AddFederationPeer toy_aead (\<lambda>c. None) ?nonce 7 store_with_peer ?bad) = store_with_peer"
    using name_bad
      AddFederationPeer_name_validation [of toy_aead "\<lambda>c. None" ?nonce 7 store_with_peer ?bad]
    by simp
  show ?thesis
    using name_ok enc inserted updated no_key refused kept lost name_bad invalid
    by (intro conjI) simp_all
qed

text \<open>
  The claim as first stated promised the upsert for every valid name. With a non-empty
  password and no credential key the call stops at the encryption error, before the
  INSERT: the name \<open>peer1\<close> is valid, and no row is written.
\<close>

theorem AddFederationPeer_no_key_counterexample:
  "validatePeerName (Name peer_alice) = None
   \<and> AddFederationPeer toy_aead (\<lambda>c. None) (replicate 12 (CHR ''n'')) 7 store_without_key peer_alice
       = (Some (Wrap ''failed to encrypt password: ''
                  (Err ''credential encryption key not initialized'') []),
          store_without_key)
   \<and> federation_peers store_without_key = []"
  by (simp add: validatePeerName_def is_letter_def is_name_char_def is_digit_def
        AddFederationPeer_def peer_alice_def store_without_key_def encryptPassword_def)

text \<open>
  Claim C10. When the engine executes the DELETE, \<open>RemoveFederationPeer\<close> returns nil
  whether or not a row with that name exists. The table afterwards has no row with that
  name (and is unchanged when there was none), the removal of the remote has been tried
  (the remote is gone unless the engine refused, and that error is dropped), and a second
  call returns nil again and changes nothing.
\<close>

theorem RemoveFederationPeer_absent_ok:
  "fails DeletePeer = None \<Longrightarrow>
     fst (RemoveFederationPeer fails s nm) = None
   \<and> federation_peers (snd (RemoveFederationPeer fails s nm))
       = filter (\<lambda>r. peer_name r \<noteq> nm) (federation_peers s)
   \<and> (\<not> list_ex (\<lambda>r. peer_name r = nm) (federation_peers s)
        \<longrightarrow> federation_peers (snd (RemoveFederationPeer fails s nm)) = federation_peers s)
   \<and> remotes (snd (RemoveFederationPeer fails s nm))
       = (if fails RemoveRemoteCall = None then filter (\<lambda>r. fst r \<noteq> nm) (remotes s)
          else remotes s)
   \<and> RemoveFederationPeer fails (snd (RemoveFederationPeer fails s nm)) nm
       = (None, snd (RemoveFederationPeer fails s nm))"
  by (auto simp: RemoveFederationPeer_def RemoveRemote_def Let_def list_ex_iff filter_id_conv
           split: option.splits)

theorem RemoveFederationPeer_absent_ok_witness:
  "\<not> list_ex (\<lambda>r. peer_name r = ''ghost'') (federation_peers store_with_key)
   \<and> fst (RemoveFederationPeer (\<lambda>c. None) store_with_key ''ghost'') = None
   \<and> federation_peers (snd (RemoveFederationPeer (\<lambda>c. None) store_with_key ''ghost''))
       = federation_peers store_with_key
   \<and> remotes (snd (RemoveFederationPeer (\<lambda>c. None) store_with_key ''ghost'')) = []"
proof -
  have executes: "(\<lambda>c::call. None :: error option) DeletePeer = None"
    by simp
  have absent: "\<not> list_ex (\<lambda>r. peer_name r = ''ghost'') (federation_peers store_with_key)"
    by (simp add: store_with_key_def)
  show ?thesis
    using absent RemoveFederationPeer_absent_ok [OF executes, of store_with_key "''ghost''"]
    by (simp add: store_with_key_def)
qed

subsection \<open>Running a callback with a peer's credentials\<close>

lemma cleanup_unsets:
  "fst (setFederationCredentials usr pw env) e ''DOLT_REMOTE_USER'' = None
   \<and> fst (setFederationCredentials usr pw env) e ''DOLT_REMOTE_PASSWORD'' = None"
  by (simp add: setFederationCredentials_def os_Unsetenv_def Let_def)

lemma stamped_rows:
  assumes mem: "r \<in> set (map (\<lambda>x. if peer_name x = nm then x\<lparr>last_sync := Some now\<rparr> else x) xs)"
      and named: "peer_name r = nm"
  shows "last_sync r = Some now"
proof -
  from mem obtain x where x: "r = (if peer_name x = nm then x\<lparr>last_sync := Some now\<rparr> else x)"
    unfolding set_map by (rule imageE)
  show ?thesis
  proof (cases "peer_name x = nm")
    case True
    with x show ?thesis by simp
  next
    case False
    with x have "r = x" by simp
    with named False show ?thesis by simp
  qed
qed

lemma updatePeerLastSync_table:
  "fails UpdateLastSync = None \<Longrightarrow>
     federation_peers (snd (updatePeerLastSync fails now s nm))
       = map (\<lambda>x. if peer_name x = nm then x\<lparr>last_sync := Some now\<rparr> else x) (federation_peers s)"
  by (simp add: updatePeerLastSync_def)

lemma withPeerCredentials_unfold:
  assumes got: "GetFederationPeer A fails (store p) peerName = Inr peer"
      and ran: "fn (if Username peer \<noteq> [] \<or> Password peer \<noteq> []
                    then p\<lparr>environ := snd (setFederationCredentials (Username peer) (Password peer) (environ p))\<rparr>
                    else p) = (out, q)"
  shows "withPeerCredentials A fails now p peerName fn =
           (out,
            (let q' = (if out = Returns None
                       then q\<lparr>store := snd (updatePeerLastSync fails now (store q) peerName)\<rparr>
                       else q)
             in if Username peer \<noteq> [] \<or> Password peer \<noteq> []
                then q'\<lparr>environ := fst (setFederationCredentials (Username peer) (Password peer) (environ p)) (environ q')\<rparr>
                else q'))"
proof (cases "Username peer \<noteq> [] \<or> Password peer \<noteq> []")
  case True
  with ran have r: "fn (p\<lparr>environ := snd (setFederationCredentials (Username peer) (Password peer) (environ p))\<rparr>) = (out, q)"
    by simp
  show ?thesis
    using True by (cases out) (simp_all add: withPeerCredentials_def got Let_def r)
next
  case False
  with ran have r: "fn p = (out, q)"
    by simp
  show ?thesis
    using False by (cases out) (simp_all add: withPeerCredentials_def got Let_def r)
qed

text \<open>
  Claim C6. For a stored peer (the lookup succeeds), \<open>withPeerCredentials\<close> returns what
  the callback returns (its error, nil, or its panic). When it has set credentials (the
  user name or the password is not empty), both variables are unset when it is left,
  whichever way the callback ended. The \<open>last_sync\<close> update is issued exactly when the
  callback returned nil: the store afterwards is the callback's store with that update
  applied, and the callback's store itself otherwise. The update is best effort: when the
  engine executes it, every row of that name carries the current time.
\<close>

theorem withPeerCredentials_cleanup_and_last_sync:
  assumes got: "GetFederationPeer A fails (store p) peerName = Inr peer"
      and ran: "fn (if Username peer \<noteq> [] \<or> Password peer \<noteq> []
                    then p\<lparr>environ := snd (setFederationCredentials (Username peer) (Password peer) (environ p))\<rparr>
                    else p) = (out, q)"
  shows "fst (withPeerCredentials A fails now p peerName fn) = out
       \<and> (Username peer \<noteq> [] \<or> Password peer \<noteq> [] \<longrightarrow>
            environ (snd (withPeerCredentials A fails now p peerName fn)) ''DOLT_REMOTE_USER'' = None
          \<and> environ (snd (withPeerCredentials A fails now p peerName fn)) ''DOLT_REMOTE_PASSWORD'' = None)
       \<and> store (snd (withPeerCredentials A fails now p peerName fn))
           = (if out = Returns None then snd (updatePeerLastSync fails now (store q) peerName)
              else store q)
       \<and> (out = Returns None \<and> fails UpdateLastSync = None \<longrightarrow>
            (\<forall>r \<in> set (federation_peers (store (snd (withPeerCredentials A fails now p peerName fn)))).
               peer_name r = peerName \<longrightarrow> last_sync r = Some now))"
proof -
  have unfolded: "withPeerCredentials A fails now p peerName fn =
           (out,
            (let q' = (if out = Returns None
                       then q\<lparr>store := snd (updatePeerLastSync fails now (store q) peerName)\<rparr>
                       else q)
             in if Username peer \<noteq> [] \<or> Password peer \<noteq> []
                then q'\<lparr>environ := fst (setFederationCredentials (Username peer) (Password peer) (environ p)) (environ q')\<rparr>
                else q'))"
    by (rule withPeerCredentials_unfold [of A fails p peerName peer fn out q now, OF got ran])
  have returned: "fst (withPeerCredentials A fails now p peerName fn) = out"
    by (simp add: unfolded)
  have unset: "Username peer \<noteq> [] \<or> Password peer \<noteq> [] \<longrightarrow>
            environ (snd (withPeerCredentials A fails now p peerName fn)) ''DOLT_REMOTE_USER'' = None
          \<and> environ (snd (withPeerCredentials A fails now p peerName fn)) ''DOLT_REMOTE_PASSWORD'' = None"
    by (simp add: unfolded Let_def cleanup_unsets)
  have synced: "store (snd (withPeerCredentials A fails now p peerName fn))
           = (if out = Returns None then snd (updatePeerLastSync fails now (store q) peerName)
              else store q)"
    by (simp add: unfolded Let_def)
  have stamped: "out = Returns None \<and> fails UpdateLastSync = None \<longrightarrow>
            (\<forall>r \<in> set (federation_peers (store (snd (withPeerCredentials A fails now p peerName fn)))).
               peer_name r = peerName \<longrightarrow> last_sync r = Some now)"
  proof (intro impI ballI)
    fix r
    assume ok: "out = Returns None \<and> fails UpdateLastSync = None"
       and mem: "r \<in> set (federation_peers (store (snd (withPeerCredentials A fails now p peerName fn))))"
       and named: "peer_name r = peerName"
    have "federation_peers (store (snd (withPeerCredentials A fails now p peerName fn)))
            = map (\<lambda>x. if peer_name x = peerName then x\<lparr>last_sync := Some now\<rparr> else x)
                (federation_peers (store q))"
      using ok by (simp add: synced updatePeerLastSync_table)
    with mem named show "last_sync r = Some now"
      by (simp only: stamped_rows)
  qed
  show ?thesis
    by (intro conjI) (rule returned, rule unset, rule synced, rule stamped)
qed

theorem withPeerCredentials_cleanup_and_last_sync_witness:
  "Username \<lparr>Name = ''peer1'', RemoteURL = ''https://host/db'', Username = ''alice'', Password = [],
        Sovereignty = ''T1'', LastSync = None, CreatedAt = 1, UpdatedAt = 1\<rparr> \<noteq> []
   \<and> fst (withPeerCredentials toy_aead (\<lambda>c. None) 9
            \<lparr>environ = Map.empty, store = store_with_peer\<rparr> ''peer1'' sync_needing_user) = Returns None
   \<and> environ (snd (withPeerCredentials toy_aead (\<lambda>c. None) 9
            \<lparr>environ = Map.empty, store = store_with_peer\<rparr> ''peer1'' sync_needing_user)) ''DOLT_REMOTE_USER'' = None
   \<and> map last_sync (federation_peers (store (snd (withPeerCredentials toy_aead (\<lambda>c. None) 9
            \<lparr>environ = Map.empty, store = store_with_peer\<rparr> ''peer1'' sync_needing_user)))) = [Some 9]"
proof -
  let ?peer = "\<lparr>Name = ''peer1'', RemoteURL = ''https://host/db'', Username = ''alice'', Password = [],
        Sovereignty = ''T1'', LastSync = None, CreatedAt = 1, UpdatedAt = 1\<rparr>"
  let ?p = "\<lparr>environ = Map.empty, store = store_with_peer\<rparr>"
  have got: "GetFederationPeer toy_aead (\<lambda>c. None) (store ?p) ''peer1'' = Inr ?peer"
    by (simp add: GetFederationPeer_def store_with_peer_def)
  have ran: "sync_needing_user
       (if Username ?peer \<noteq> [] \<or> Password ?peer \<noteq> []
        then ?p\<lparr>environ := snd (setFederationCredentials (Username ?peer) (Password ?peer) (environ ?p))\<rparr>
        else ?p)
      = (Returns None, \<lparr>environ = [''DOLT_REMOTE_USER'' \<mapsto> ''alice''], store = store_with_peer\<rparr>)"
    by (simp add: sync_needing_user_def setFederationCredentials_def os_Setenv_def Let_def)
  show ?thesis
    using withPeerCredentials_cleanup_and_last_sync
            [of toy_aead "\<lambda>c. None" ?p "''peer1''" ?peer sync_needing_user "Returns None"
                "\<lparr>environ = [''DOLT_REMOTE_USER'' \<mapsto> ''alice''], store = store_with_peer\<rparr>" 9,
             OF got ran]
    by (simp add: updatePeerLastSync_def wrapExecError_def store_with_peer_def)
qed

subsection \<open>Migration of stored passwords\<close>

lemma encryptWithKey_Inr:
  assumes "encryptWithKey A rd plaintext key = (Inr enc, rd')"
  shows "\<exists>nonce. length nonce = gcmNonceSize \<and> enc = nonce @ gcm_seal A key nonce plaintext"
proof -
  from assms have long: "\<not> length rd < gcmNonceSize"
    by (auto simp: encryptWithKey_def io_ReadFull_def split: option.splits if_splits)
  from assms long have "enc = take gcmNonceSize rd @ gcm_seal A key (take gcmNonceSize rd) plaintext"
    by (auto simp: encryptWithKey_def io_ReadFull_def split: option.splits if_splits)
  moreover from long have "length (take gcmNonceSize rd) = gcmNonceSize"
    by simp
  ultimately show ?thesis by blast
qed

lemma set_password_nth:
  "i < length tbl \<Longrightarrow>
     map (\<lambda>r. if peer_name r = nm then r\<lparr>password_encrypted := Some enc\<rparr> else r) tbl ! i
       = (if peer_name (tbl ! i) = nm then (tbl ! i)\<lparr>password_encrypted := Some enc\<rparr> else tbl ! i)"
  by (simp only: nth_map)

lemma reencrypt_Cons_None:
  assumes "reencrypt A fails newKey ((nm, plaintext) # entries) rd s = (None, s')"
  obtains enc rd' where
    "encryptWithKey A rd plaintext newKey = (Inr enc, rd')"
    "fails (UpdatePassword nm) = None"
    "reencrypt A fails newKey entries rd'
       (s\<lparr>federation_peers :=
            map (\<lambda>r. if peer_name r = nm then r\<lparr>password_encrypted := Some enc\<rparr> else r)
              (federation_peers s)\<rparr>) = (None, s')"
  using assms
  by (auto split: prod.splits sum.splits option.splits)


lemma reencrypt_frame:
  "reencrypt A fails newKey entries rd s = (res, s') \<Longrightarrow>
     length (federation_peers s') = length (federation_peers s)
   \<and> dbPath s' = dbPath s \<and> credentialKey s' = credentialKey s
   \<and> db_nil s' = db_nil s \<and> remotes s' = remotes s
   \<and> (\<forall>i < length (federation_peers s).
          peer_name (federation_peers s' ! i) = peer_name (federation_peers s ! i)
        \<and> (peer_name (federation_peers s ! i) \<notin> fst ` set entries
             \<longrightarrow> federation_peers s' ! i = federation_peers s ! i))"
proof (induction entries arbitrary: rd s)
  case Nil
  then show ?case by simp
next
  case (Cons entry entries)
  obtain nm plaintext where entry: "entry = (nm, plaintext)"
    by (cases entry)
  show ?case
  proof (cases "encryptWithKey A rd plaintext newKey")
    case (Pair enc_result rd')
    show ?thesis
    proof (cases enc_result)
      case (Inl e)
      with Cons.prems entry Pair have "s' = s" by simp
      then show ?thesis by simp
    next
      case (Inr enc)
      show ?thesis
      proof (cases "fails (UpdatePassword nm)")
        case (Some e)
        with Cons.prems entry Pair Inr have "s' = s" by simp
        then show ?thesis by simp
      next
        case None
        let ?s1 = "s\<lparr>federation_peers :=
                       map (\<lambda>r. if peer_name r = nm then r\<lparr>password_encrypted := Some enc\<rparr> else r)
                         (federation_peers s)\<rparr>"
        have rest: "reencrypt A fails newKey entries rd' ?s1 = (res, s')"
          using Cons.prems entry Pair Inr None by simp
        note ih = Cons.IH [OF rest]
        have len1: "length (federation_peers ?s1) = length (federation_peers s)"
          by simp
        have rows: "\<forall>i < length (federation_peers s).
          peer_name (federation_peers s' ! i) = peer_name (federation_peers s ! i)
        \<and> (peer_name (federation_peers s ! i) \<notin> fst ` set (entry # entries)
             \<longrightarrow> federation_peers s' ! i = federation_peers s ! i)"
        proof (intro allI impI)
          fix i assume i: "i < length (federation_peers s)"
          have row1: "federation_peers ?s1 ! i
                  = (if peer_name (federation_peers s ! i) = nm
                     then (federation_peers s ! i)\<lparr>password_encrypted := Some enc\<rparr>
                     else federation_peers s ! i)"
            using i by (simp add: set_password_nth)
          then have name1: "peer_name (federation_peers ?s1 ! i) = peer_name (federation_peers s ! i)"
            by simp
          from ih i len1 have
            a: "peer_name (federation_peers s' ! i) = peer_name (federation_peers ?s1 ! i)"
            and b: "peer_name (federation_peers ?s1 ! i) \<notin> fst ` set entries
                 \<longrightarrow> federation_peers s' ! i = federation_peers ?s1 ! i"
            by simp_all
          have untouched: "peer_name (federation_peers s ! i) \<notin> fst ` set (entry # entries)
             \<longrightarrow> federation_peers s' ! i = federation_peers s ! i"
          proof
            assume out: "peer_name (federation_peers s ! i) \<notin> fst ` set (entry # entries)"
            then have "peer_name (federation_peers s ! i) \<noteq> nm"
              and "peer_name (federation_peers s ! i) \<notin> fst ` set entries"
              using entry by auto
            with b name1 row1 show "federation_peers s' ! i = federation_peers s ! i"
              by simp
          qed
          show "peer_name (federation_peers s' ! i) = peer_name (federation_peers s ! i)
        \<and> (peer_name (federation_peers s ! i) \<notin> fst ` set (entry # entries)
             \<longrightarrow> federation_peers s' ! i = federation_peers s ! i)"
            using a name1 untouched by simp
        qed
        from ih rows show ?thesis by simp
      qed
    qed
  qed
qed


lemma reencrypt_success:
  "reencrypt A fails newKey entries rd s = (None, s') \<Longrightarrow> distinct (map fst entries) \<Longrightarrow>
   i < length (federation_peers s) \<Longrightarrow> (peer_name (federation_peers s ! i), p) \<in> set entries \<Longrightarrow>
     \<exists>nonce. length nonce = gcmNonceSize
       \<and> federation_peers s' ! i
           = (federation_peers s ! i)\<lparr>password_encrypted := Some (nonce @ gcm_seal A newKey nonce p)\<rparr>"
proof (induction entries arbitrary: rd s)
  case Nil
  then show ?case by simp
next
  case (Cons entry entries)
  obtain nm plaintext where entry: "entry = (nm, plaintext)"
    by (cases entry)
  from Cons.prems(1) entry
  have whole: "reencrypt A fails newKey ((nm, plaintext) # entries) rd s = (None, s')"
    by simp
  from whole obtain enc rd' where
    enc: "encryptWithKey A rd plaintext newKey = (Inr enc, rd')"
    and updated: "fails (UpdatePassword nm) = None"
    and rest: "reencrypt A fails newKey entries rd'
       (s\<lparr>federation_peers :=
            map (\<lambda>r. if peer_name r = nm then r\<lparr>password_encrypted := Some enc\<rparr> else r)
              (federation_peers s)\<rparr>) = (None, s')"
    by (rule reencrypt_Cons_None)
  let ?s1 = "s\<lparr>federation_peers :=
                 map (\<lambda>r. if peer_name r = nm then r\<lparr>password_encrypted := Some enc\<rparr> else r)
                   (federation_peers s)\<rparr>"
  have i1: "i < length (federation_peers ?s1)"
    using Cons.prems(3) by simp
  have row1: "federation_peers ?s1 ! i
          = (if peer_name (federation_peers s ! i) = nm
             then (federation_peers s ! i)\<lparr>password_encrypted := Some enc\<rparr>
             else federation_peers s ! i)"
    using Cons.prems(3) by (simp add: set_password_nth)
  have fresh: "nm \<notin> fst ` set entries" and dist: "distinct (map fst entries)"
    using Cons.prems(2) entry by simp_all
  show ?case
  proof (cases "peer_name (federation_peers s ! i) = nm")
    case True
    have "(nm, p) \<notin> set entries"
      using fresh by force
    with Cons.prems(4) True entry have p: "p = plaintext"
      by simp
    from reencrypt_frame [OF rest] i1 have
      "peer_name (federation_peers ?s1 ! i) \<notin> fst ` set entries
         \<longrightarrow> federation_peers s' ! i = federation_peers ?s1 ! i"
      by blast
    moreover have "peer_name (federation_peers ?s1 ! i) = nm"
      using row1 True by simp
    ultimately have "federation_peers s' ! i = (federation_peers s ! i)\<lparr>password_encrypted := Some enc\<rparr>"
      using fresh row1 True by simp
    with encryptWithKey_Inr [OF enc] p show ?thesis
      by auto
  next
    case False
    with Cons.prems(4) entry have mem: "(peer_name (federation_peers s ! i), p) \<in> set entries"
      by auto
    from False row1 have same: "federation_peers ?s1 ! i = federation_peers s ! i"
      by simp
    from mem same have mem1: "(peer_name (federation_peers ?s1 ! i), p) \<in> set entries"
      by simp
    from Cons.IH [OF rest dist i1 mem1] same show ?thesis
      by simp
  qed
qed

lemma scan_rows_sound:
  "scan_rows A fails oldKey rows acc = Inr out \<Longrightarrow> (n, p) \<in> set out \<Longrightarrow>
     (n, p) \<in> set acc \<or> (\<exists>c. (n, c) \<in> set rows \<and> decryptWithKey A c oldKey = Inr p)"
proof (induction rows arbitrary: acc)
  case Nil
  then show ?case by simp
next
  case (Cons row rows)
  obtain nm encrypted where row: "row = (nm, encrypted)"
    by (cases row)
  from Cons.prems(1) row have scanned: "fails (ScanPeer nm) = None"
    by (auto split: option.splits)
  show ?case
  proof (cases "decryptWithKey A encrypted oldKey")
    case (Inl e)
    with Cons.prems(1) row scanned have "scan_rows A fails oldKey rows acc = Inr out"
      by simp
    from Cons.IH [OF this Cons.prems(2)] show ?thesis
      by auto
  next
    case (Inr plaintext)
    with Cons.prems(1) row scanned
    have "scan_rows A fails oldKey rows (acc @ [(nm, plaintext)]) = Inr out"
      by simp
    from Cons.IH [OF this Cons.prems(2)] row Inr show ?thesis
      by auto
  qed
qed

lemma scan_rows_complete:
  "scan_rows A fails oldKey rows acc = Inr out \<Longrightarrow>
     set acc \<subseteq> set out
   \<and> (\<forall>n c p. (n, c) \<in> set rows \<and> decryptWithKey A c oldKey = Inr p \<longrightarrow> (n, p) \<in> set out)"
proof (induction rows arbitrary: acc)
  case Nil
  then show ?case by simp
next
  case (Cons row rows)
  obtain nm encrypted where row: "row = (nm, encrypted)"
    by (cases row)
  from Cons.prems(1) row have scanned: "fails (ScanPeer nm) = None"
    by (auto split: option.splits)
  show ?case
  proof (cases "decryptWithKey A encrypted oldKey")
    case (Inl e)
    with Cons.prems(1) row scanned have "scan_rows A fails oldKey rows acc = Inr out"
      by simp
    from Cons.IH [OF this] row Inl show ?thesis
      by auto
  next
    case (Inr plaintext)
    with Cons.prems(1) row scanned
    have "scan_rows A fails oldKey rows (acc @ [(nm, plaintext)]) = Inr out"
      by simp
    from Cons.IH [OF this] row Inr show ?thesis
      by auto
  qed
qed

lemma scan_rows_distinct:
  "scan_rows A fails oldKey rows acc = Inr out \<Longrightarrow> distinct (map fst acc @ map fst rows) \<Longrightarrow>
     distinct (map fst out)"
proof (induction rows arbitrary: acc)
  case Nil
  then show ?case by simp
next
  case (Cons row rows)
  obtain nm encrypted where row: "row = (nm, encrypted)"
    by (cases row)
  from Cons.prems(1) row have scanned: "fails (ScanPeer nm) = None"
    by (auto split: option.splits)
  show ?case
  proof (cases "decryptWithKey A encrypted oldKey")
    case (Inl e)
    with Cons.prems(1) row scanned have "scan_rows A fails oldKey rows acc = Inr out"
      by simp
    moreover have "distinct (map fst acc @ map fst rows)"
      using Cons.prems(2) by simp
    ultimately show ?thesis
      by (rule Cons.IH)
  next
    case (Inr plaintext)
    with Cons.prems(1) row scanned
    have "scan_rows A fails oldKey rows (acc @ [(nm, plaintext)]) = Inr out"
      by simp
    moreover have "distinct (map fst (acc @ [(nm, plaintext)]) @ map fst rows)"
      using Cons.prems(2) row by auto
    ultimately show ?thesis
      by (rule Cons.IH)
  qed
qed

lemma rows_to_migrate_mem:
  "(n, c) \<in> set (rows_to_migrate tbl)
     \<longleftrightarrow> (\<exists>r \<in> set tbl. peer_name r = n \<and> password_encrypted r = Some c \<and> c \<noteq> [])"
  by (induction tbl) (auto simp: rows_to_migrate_def split: option.splits)

lemma rows_to_migrate_names:
  "fst ` set (rows_to_migrate tbl) \<subseteq> peer_name ` set tbl"
  using rows_to_migrate_mem [of _ _ tbl] by force

lemma rows_to_migrate_distinct:
  "distinct (map peer_name tbl) \<Longrightarrow> distinct (map fst (rows_to_migrate tbl))"
proof (induction tbl)
  case Nil
  then show ?case by (simp add: rows_to_migrate_def)
next
  case (Cons r tbl)
  have split: "rows_to_migrate (r # tbl)
      = (case password_encrypted r of None \<Rightarrow> []
         | Some c \<Rightarrow> if 0 < length c then [(peer_name r, c)] else []) @ rows_to_migrate tbl"
    by (simp add: rows_to_migrate_def)
  have "peer_name r \<notin> fst ` set (rows_to_migrate tbl)"
    using Cons.prems rows_to_migrate_names [of tbl] by auto
  moreover have "distinct (map fst (rows_to_migrate tbl))"
    using Cons by simp
  ultimately show ?case
    unfolding split by (auto split: option.splits)
qed

lemma migrate_unfold:
  assumes run: "migrateCredentialKeys A sha256 fails rd s newKey = (res, s')"
  shows "s' = s
       \<or> (\<exists>toMigrate.
            \<not> db_nil s \<and> fails SelectPeersToMigrate = None
          \<and> scan_rows A fails (legacyEncryptionKey sha256 s) (rows_to_migrate (federation_peers s)) []
               = Inr toMigrate
          \<and> reencrypt A fails newKey toMigrate rd s = (res, s'))"
  using run
  by (auto simp: migrateCredentialKeys_def Let_def split: if_splits option.splits sum.splits)

lemma migrate_success_unfold:
  assumes run: "migrateCredentialKeys A sha256 fails rd s newKey = (None, s')"
      and live: "\<not> db_nil s" "fails SelectPeersToMigrate = None"
  shows "\<exists>toMigrate.
            scan_rows A fails (legacyEncryptionKey sha256 s) (rows_to_migrate (federation_peers s)) []
               = Inr toMigrate
          \<and> reencrypt A fails newKey toMigrate rd s = (None, s')"
  using run live
  by (auto simp: migrateCredentialKeys_def Let_def split: if_splits option.splits sum.splits)

text \<open>
  Claim C5. The table's key is the peer name, so names are distinct. Whatever the
  migration returns, the table keeps its length and the store its other fields, and a
  row whose password is NULL, empty or not decryptable under the legacy key
  \<open>SHA256(dbPath || "beads-federation-key-v1")\<close> is unchanged, ciphertext included. When
  the migration runs on an open database and returns nil, every row whose non-empty
  password decrypts under the legacy key holds that plaintext sealed under \<open>newKey\<close> with
  a fresh 12-byte nonce, and nothing else of the row has changed.
\<close>

theorem migrateCredentialKeys_reencrypts_decryptable_only:
  assumes keyed: "distinct (map peer_name (federation_peers s))"
      and run: "migrateCredentialKeys A sha256 fails rd s newKey = (res, s')"
      and i: "i < length (federation_peers s)"
  shows "length (federation_peers s') = length (federation_peers s)
       \<and> dbPath s' = dbPath s \<and> credentialKey s' = credentialKey s \<and> remotes s' = remotes s
       \<and> ((password_encrypted (federation_peers s ! i) = None
            \<or> password_encrypted (federation_peers s ! i) = Some []
            \<or> (\<exists>c e. password_encrypted (federation_peers s ! i) = Some c
                   \<and> decryptWithKey A c (legacyEncryptionKey sha256 s) = Inl e))
           \<longrightarrow> federation_peers s' ! i = federation_peers s ! i)
       \<and> (res = None \<and> \<not> db_nil s \<and> fails SelectPeersToMigrate = None \<longrightarrow>
            (\<forall>c p. password_encrypted (federation_peers s ! i) = Some c \<and> c \<noteq> []
                   \<and> decryptWithKey A c (legacyEncryptionKey sha256 s) = Inr p
               \<longrightarrow> (\<exists>nonce. length nonce = gcmNonceSize
                      \<and> federation_peers s' ! i
                          = (federation_peers s ! i)
                              \<lparr>password_encrypted := Some (nonce @ gcm_seal A newKey nonce p)\<rparr>)))"
proof -
  let ?old = "legacyEncryptionKey sha256 s"
  let ?tbl = "federation_peers s"
  have row_i: "?tbl ! i \<in> set ?tbl"
    using i by simp
  have frame_part:
    "length (federation_peers s') = length ?tbl
       \<and> dbPath s' = dbPath s \<and> credentialKey s' = credentialKey s \<and> remotes s' = remotes s
       \<and> ((password_encrypted (?tbl ! i) = None
            \<or> password_encrypted (?tbl ! i) = Some []
            \<or> (\<exists>c e. password_encrypted (?tbl ! i) = Some c \<and> decryptWithKey A c ?old = Inl e))
           \<longrightarrow> federation_peers s' ! i = ?tbl ! i)"
  proof (rule disjE [OF migrate_unfold [OF run]])
    assume "s' = s"
    then show ?thesis by simp
  next
    assume "\<exists>toMigrate.
            \<not> db_nil s \<and> fails SelectPeersToMigrate = None
          \<and> scan_rows A fails ?old (rows_to_migrate ?tbl) [] = Inr toMigrate
          \<and> reencrypt A fails newKey toMigrate rd s = (res, s')"
    then obtain toMigrate where
      scanned: "scan_rows A fails ?old (rows_to_migrate ?tbl) [] = Inr toMigrate"
      and updated: "reencrypt A fails newKey toMigrate rd s = (res, s')"
      by blast
    note frame = reencrypt_frame [OF updated]
    have skipped: "peer_name (?tbl ! i) \<notin> fst ` set toMigrate"
      if undecryptable: "password_encrypted (?tbl ! i) = None
            \<or> password_encrypted (?tbl ! i) = Some []
            \<or> (\<exists>c e. password_encrypted (?tbl ! i) = Some c \<and> decryptWithKey A c ?old = Inl e)"
    proof
      assume "peer_name (?tbl ! i) \<in> fst ` set toMigrate"
      then obtain p where "(peer_name (?tbl ! i), p) \<in> set toMigrate"
        by force
      from scan_rows_sound [OF scanned this] obtain c where
        c: "(peer_name (?tbl ! i), c) \<in> set (rows_to_migrate ?tbl)"
        and dec: "decryptWithKey A c ?old = Inr p"
        by auto
      from c obtain r where r: "r \<in> set ?tbl" "peer_name r = peer_name (?tbl ! i)"
        "password_encrypted r = Some c" "c \<noteq> []"
        unfolding rows_to_migrate_mem by blast
      from keyed r(1,2) row_i have "r = ?tbl ! i"
        by (meson distinct_map inj_onD)
      with r(3,4) dec undecryptable show False
        by auto
    qed
    from frame i skipped show ?thesis
      by blast
  qed
  have success_part:
    "\<exists>nonce. length nonce = gcmNonceSize
        \<and> federation_peers s' ! i
            = (?tbl ! i)\<lparr>password_encrypted := Some (nonce @ gcm_seal A newKey nonce p)\<rparr>"
    if ok: "res = None \<and> \<not> db_nil s \<and> fails SelectPeersToMigrate = None"
      and dec: "password_encrypted (?tbl ! i) = Some c \<and> c \<noteq> [] \<and> decryptWithKey A c ?old = Inr p"
    for c p
  proof -
    from run ok have run': "migrateCredentialKeys A sha256 fails rd s newKey = (None, s')"
      by simp
    from ok have live: "\<not> db_nil s" "fails SelectPeersToMigrate = None"
      by simp_all
    from migrate_success_unfold [OF run' live] obtain toMigrate where
      scanned: "scan_rows A fails ?old (rows_to_migrate ?tbl) [] = Inr toMigrate"
      and updated: "reencrypt A fails newKey toMigrate rd s = (None, s')"
      by blast
    have "(peer_name (?tbl ! i), c) \<in> set (rows_to_migrate ?tbl)"
      unfolding rows_to_migrate_mem using row_i dec by blast
    with scan_rows_complete [OF scanned] dec
    have mem: "(peer_name (?tbl ! i), p) \<in> set toMigrate"
      by blast
    have "distinct (map fst [] @ map fst (rows_to_migrate ?tbl))"
      using rows_to_migrate_distinct [OF keyed] by simp
    from scan_rows_distinct [OF scanned this] have dist: "distinct (map fst toMigrate)" .
    from reencrypt_success [OF updated dist i mem] show ?thesis .
  qed
  from frame_part success_part show ?thesis
    by blast
qed

theorem migrateCredentialKeys_reencrypts_decryptable_only_witness:
  "distinct (map peer_name (federation_peers legacy_store))
   \<and> 1 < length (federation_peers legacy_store)
   \<and> password_encrypted (federation_peers legacy_store ! 1)
       = Some (''nonce-000002'' @ ''pw2'' @ replicate 32 (CHR ''x''))
   \<and> decryptWithKey toy_aead (''nonce-000002'' @ ''pw2'' @ replicate 32 (CHR ''x''))
        (legacyEncryptionKey toy_sha256 legacy_store)
       = Inl (Err ''cipher: message authentication failed'')
   \<and> federation_peers
        (snd (migrateCredentialKeys toy_aead toy_sha256 (\<lambda>c. None) (replicate 12 (CHR ''n''))
               legacy_store (replicate 32 (CHR ''k'')))) ! 1
       = federation_peers legacy_store ! 1
   \<and> password_encrypted
        (federation_peers
          (snd (migrateCredentialKeys toy_aead toy_sha256 (\<lambda>c. None) (replicate 12 (CHR ''n''))
                 legacy_store (replicate 32 (CHR ''k'')))) ! 0)
       = Some (replicate 12 (CHR ''n'') @ ''pw1'' @ replicate 32 (CHR ''k''))"
proof -
  let ?run = "migrateCredentialKeys toy_aead toy_sha256 (\<lambda>c. None) (replicate 12 (CHR ''n''))
               legacy_store (replicate 32 (CHR ''k''))"
  have keyed: "distinct (map peer_name (federation_peers legacy_store))"
    by code_simp
  have second: "1 < length (federation_peers legacy_store)"
    by code_simp
  have stored: "password_encrypted (federation_peers legacy_store ! 1)
       = Some (''nonce-000002'' @ ''pw2'' @ replicate 32 (CHR ''x''))"
    by code_simp
  have rejected: "decryptWithKey toy_aead (''nonce-000002'' @ ''pw2'' @ replicate 32 (CHR ''x''))
        (legacyEncryptionKey toy_sha256 legacy_store)
       = Inl (Err ''cipher: message authentication failed'')"
    by code_simp
  have run: "?run = (fst ?run, snd ?run)"
    by simp
  have migrated: "password_encrypted (federation_peers (snd ?run) ! 0)
       = Some (replicate 12 (CHR ''n'') @ ''pw1'' @ replicate 32 (CHR ''k''))"
    by code_simp
  from migrateCredentialKeys_reencrypts_decryptable_only [OF keyed run second]
  have "(\<exists>c e. password_encrypted (federation_peers legacy_store ! 1) = Some c
                   \<and> decryptWithKey toy_aead c (legacyEncryptionKey toy_sha256 legacy_store) = Inl e)
           \<longrightarrow> federation_peers (snd ?run) ! 1 = federation_peers legacy_store ! 1"
    by blast
  with stored rejected have kept: "federation_peers (snd ?run) ! 1 = federation_peers legacy_store ! 1"
    by blast
  from keyed second stored rejected kept migrated show ?thesis
    by blast
qed

subsection \<open>The rename cascade\<close>

lemma set_where_no_old:
  assumes lens: "\<And>f r. col (col_update f r) = f (col r)"
      and neq: "old \<noteq> new"
  shows "list_all (\<lambda>r. col r \<noteq> old) (set_where col col_update old new rows)"
proof (induction rows)
  case Nil
  show ?case by (simp add: set_where_def)
next
  case (Cons r rows)
  have head: "col (if col r = old then col_update (\<lambda>_. new) r else r) \<noteq> old"
  proof (cases "col r = old")
    case True
    then show ?thesis using lens [of "\<lambda>_. new" r] neq by simp
  next
    case False
    then show ?thesis by simp
  qed
  from Cons head show ?case
    by (simp add: set_where_def)
qed

lemma set_where_keeps:
  assumes other: "\<And>f r. col2 (col_update f r) = col2 r"
  shows "map col2 (set_where col col_update old new rows) = map col2 rows"
  by (induction rows) (simp_all add: set_where_def other)

lemma list_all_col:
  "list_all (\<lambda>r. col r \<noteq> old) rows \<longleftrightarrow> old \<notin> set (map col rows)"
  by (induction rows) auto

lemma set_where_keeps_clean:
  assumes other: "\<And>f r. col2 (col_update f r) = col2 r"
      and clean: "list_all (\<lambda>r. col2 r \<noteq> old) rows"
  shows "list_all (\<lambda>r. col2 r \<noteq> old) (set_where col col_update old new rows)"
  using clean unfolding list_all_col set_where_keeps [of col2 col_update, OF other] .

lemma exec_all_Inr:
  "exec_all fails stmts d = Inr d' \<Longrightarrow> d' = foldl (\<lambda>d stmt. snd (snd stmt) d) d stmts"
proof (induction stmts arbitrary: d)
  case Nil
  then show ?case by simp
next
  case (Cons stmt stmts)
  obtain site msg f where stmt: "stmt = (site, msg, f)"
    by (cases stmt)
  from Cons.prems stmt have "exec_all fails stmts (f d) = Inr d'"
    by (auto split: option.splits)
  from Cons.IH [OF this] stmt show ?case
    by simp
qed

lemma one_row_per_key:
  "distinct (map iss_id rows) \<Longrightarrow> list_ex (\<lambda>r. iss_id r = k) rows \<Longrightarrow>
     length (filter (\<lambda>r. iss_id r = k) rows) = 1"
proof (induction rows)
  case Nil
  then show ?case by simp
next
  case (Cons r rows)
  show ?case
  proof (cases "iss_id r = k")
    case True
    with Cons.prems(1) have "k \<notin> iss_id ` set rows"
      by auto
    then have "filter (\<lambda>r. iss_id r = k) rows = []"
      by (auto simp: filter_empty_conv)
    with True show ?thesis by simp
  next
    case False
    with Cons show ?thesis by simp
  qed
qed

lemma rekeyed_rows:
  assumes fresh: "\<not> list_ex (\<lambda>r. iss_id r = new) rows"
      and neq: "old \<noteq> new"
      and rekey: "\<And>r. iss_id (g r) = new"
  shows "length (filter (\<lambda>r. iss_id r = new) (map (\<lambda>r. if iss_id r = old then g r else r) rows))
           = length (filter (\<lambda>r. iss_id r = old) rows)
       \<and> \<not> list_ex (\<lambda>r. iss_id r = old) (map (\<lambda>r. if iss_id r = old then g r else r) rows)"
  using fresh
proof (induction rows)
  case Nil
  then show ?case by simp
next
  case (Cons r rows)
  then have ih: "length (filter (\<lambda>r. iss_id r = new) (map (\<lambda>r. if iss_id r = old then g r else r) rows))
           = length (filter (\<lambda>r. iss_id r = old) rows)
       \<and> \<not> list_ex (\<lambda>r. iss_id r = old) (map (\<lambda>r. if iss_id r = old then g r else r) rows)"
    and head: "iss_id r \<noteq> new"
    by simp_all
  show ?case
  proof (cases "iss_id r = old")
    case True
    with ih rekey [of r] neq show ?thesis by simp
  next
    case False
    with ih head show ?thesis by simp
  qed
qed

lemma update_primary_renames:
  assumes upd: "update_primary fails now rows oldID newID issue = Inr (n, rows')"
      and hit: "n \<noteq> 0"
      and pk: "distinct (map iss_id rows)"
      and neq: "oldID \<noteq> newID"
  shows "\<not> list_ex (\<lambda>r. iss_id r = oldID) rows'
       \<and> length (filter (\<lambda>r. iss_id r = newID) rows') = 1"
proof -
  let ?g = "\<lambda>r. r\<lparr>iss_id := newID, iss_title := Title issue,
                   iss_description := Description issue, iss_design := Design issue,
                   iss_acceptance_criteria := AcceptanceCriteria issue,
                   iss_notes := Notes issue, iss_updated_at := now\<rparr>"
  from upd have n: "n = length (filter (\<lambda>r. iss_id r = oldID) rows)"
    and rows': "rows' = map (\<lambda>r. if iss_id r = oldID then ?g r else r) rows"
    and no_dup: "\<not> (oldID \<noteq> newID \<and> list_ex (\<lambda>r. iss_id r = oldID) rows
                      \<and> list_ex (\<lambda>r. iss_id r = newID) rows)"
    by (auto simp: update_primary_def split: option.splits if_splits)
  from n hit have present: "list_ex (\<lambda>r. iss_id r = oldID) rows"
    by (auto simp: list_ex_iff filter_empty_conv)
  with no_dup neq have fresh: "\<not> list_ex (\<lambda>r. iss_id r = newID) rows"
    by simp
  have rekey: "\<And>r. iss_id (?g r) = newID"
    by simp
  from rekeyed_rows [of newID rows oldID ?g, OF fresh neq rekey] one_row_per_key [OF pk present]
  show ?thesis
    unfolding rows' by simp
qed

lemma updateIssueID_Inr:
  assumes "updateIssueID fails now d oldID newID issue actor = Inr d'"
  obtains n rows' where
    "update_primary fails now (issues d) oldID newID issue = Inr (n, rows')"
    "n \<noteq> 0"
    "d' = foldl (\<lambda>d stmt. snd (snd stmt) d) (d\<lparr>issues := rows'\<rparr>)
            (issue_cascade oldID newID @ wisp_cascade oldID newID @
             [(InsertRenameEvent, ''failed to record rename event: '',
                \<lambda>d. d\<lparr>events := events d @ [renamed_event newID actor oldID]\<rparr>)])"
proof -
  from assms obtain n rows' where
    up: "update_primary fails now (issues d) oldID newID issue = Inr (n, rows')"
    by (auto simp: updateIssueID_def split: sum.splits)
  from assms up have n: "n \<noteq> 0"
    by (auto simp: updateIssueID_def split: option.splits if_splits)
  from assms up n have "exec_all fails
            (issue_cascade oldID newID @ wisp_cascade oldID newID @
             [(InsertRenameEvent, ''failed to record rename event: '',
                \<lambda>d. d\<lparr>events := events d @ [renamed_event newID actor oldID]\<rparr>)])
            (d\<lparr>issues := rows'\<rparr>) = Inr d'"
    by (auto simp: updateIssueID_def split: option.splits if_splits)
  from exec_all_Inr [OF this] up n that show thesis
    by blast
qed

lemma updateIssueID_tables:
  assumes "updateIssueID fails now d oldID newID issue actor = Inr d'"
  shows "\<exists>n rows'. update_primary fails now (issues d) oldID newID issue = Inr (n, rows')
            \<and> n \<noteq> 0 \<and> issues d' = rows'"
    and "dependencies d' = set_where dep_depends_on_id dep_depends_on_id_update oldID newID
           (set_where dep_issue_id dep_issue_id_update oldID newID (dependencies d))"
    and "events d' = set_where ev_issue_id ev_issue_id_update oldID newID (events d)
           @ [renamed_event newID actor oldID]"
    and "labels d' = set_where lbl_issue_id lbl_issue_id_update oldID newID (labels d)"
    and "comments d' = set_where cmt_issue_id cmt_issue_id_update oldID newID (comments d)"
    and "issue_snapshots d' = set_where snap_issue_id snap_issue_id_update oldID newID (issue_snapshots d)"
    and "compaction_snapshots d'
           = set_where snap_issue_id snap_issue_id_update oldID newID (compaction_snapshots d)"
    and "child_counters d' = set_where cc_parent_id cc_parent_id_update oldID newID (child_counters d)"
    and "wisps d' = wisps d"
    and "wisp_dependencies d' = set_where dep_depends_on_id dep_depends_on_id_update oldID newID
           (set_where dep_issue_id dep_issue_id_update oldID newID (wisp_dependencies d))"
    and "wisp_events d' = set_where ev_issue_id ev_issue_id_update oldID newID (wisp_events d)"
    and "wisp_labels d' = set_where lbl_issue_id lbl_issue_id_update oldID newID (wisp_labels d)"
    and "wisp_comments d' = set_where cmt_issue_id cmt_issue_id_update oldID newID (wisp_comments d)"
proof -
  from assms obtain n rows' where
    up: "update_primary fails now (issues d) oldID newID issue = Inr (n, rows')" "n \<noteq> 0"
    and d': "d' = foldl (\<lambda>d stmt. snd (snd stmt) d) (d\<lparr>issues := rows'\<rparr>)
            (issue_cascade oldID newID @ wisp_cascade oldID newID @
             [(InsertRenameEvent, ''failed to record rename event: '',
                \<lambda>d. d\<lparr>events := events d @ [renamed_event newID actor oldID]\<rparr>)])"
    by (rule updateIssueID_Inr)
  have "issues d' = rows'"
    unfolding d' by (simp add: issue_cascade_def wisp_cascade_def)
  with up show "\<exists>n rows'. update_primary fails now (issues d) oldID newID issue = Inr (n, rows')
            \<and> n \<noteq> 0 \<and> issues d' = rows'"
    by blast
  show "dependencies d' = set_where dep_depends_on_id dep_depends_on_id_update oldID newID
           (set_where dep_issue_id dep_issue_id_update oldID newID (dependencies d))"
    unfolding d' by (simp add: issue_cascade_def wisp_cascade_def)
  show "events d' = set_where ev_issue_id ev_issue_id_update oldID newID (events d)
           @ [renamed_event newID actor oldID]"
    unfolding d' by (simp add: issue_cascade_def wisp_cascade_def)
  show "labels d' = set_where lbl_issue_id lbl_issue_id_update oldID newID (labels d)"
    unfolding d' by (simp add: issue_cascade_def wisp_cascade_def)
  show "comments d' = set_where cmt_issue_id cmt_issue_id_update oldID newID (comments d)"
    unfolding d' by (simp add: issue_cascade_def wisp_cascade_def)
  show "issue_snapshots d' = set_where snap_issue_id snap_issue_id_update oldID newID (issue_snapshots d)"
    unfolding d' by (simp add: issue_cascade_def wisp_cascade_def)
  show "compaction_snapshots d'
           = set_where snap_issue_id snap_issue_id_update oldID newID (compaction_snapshots d)"
    unfolding d' by (simp add: issue_cascade_def wisp_cascade_def)
  show "child_counters d' = set_where cc_parent_id cc_parent_id_update oldID newID (child_counters d)"
    unfolding d' by (simp add: issue_cascade_def wisp_cascade_def)
  show "wisps d' = wisps d"
    unfolding d' by (simp add: issue_cascade_def wisp_cascade_def)
  show "wisp_dependencies d' = set_where dep_depends_on_id dep_depends_on_id_update oldID newID
           (set_where dep_issue_id dep_issue_id_update oldID newID (wisp_dependencies d))"
    unfolding d' by (simp add: issue_cascade_def wisp_cascade_def)
  show "wisp_events d' = set_where ev_issue_id ev_issue_id_update oldID newID (wisp_events d)"
    unfolding d' by (simp add: issue_cascade_def wisp_cascade_def)
  show "wisp_labels d' = set_where lbl_issue_id lbl_issue_id_update oldID newID (wisp_labels d)"
    unfolding d' by (simp add: issue_cascade_def wisp_cascade_def)
  show "wisp_comments d' = set_where cmt_issue_id cmt_issue_id_update oldID newID (wisp_comments d)"
    unfolding d' by (simp add: issue_cascade_def wisp_cascade_def)
qed

lemma updateWispID_tables:
  assumes "updateWispID fails now d oldID newID issue actor = Inr d'"
  shows "\<exists>n rows'. update_primary fails now (wisps d) oldID newID issue = Inr (n, rows')
            \<and> n \<noteq> 0 \<and> wisps d' = rows'"
    and "wisp_dependencies d' = set_where dep_depends_on_id dep_depends_on_id_update oldID newID
           (set_where dep_issue_id dep_issue_id_update oldID newID (wisp_dependencies d))"
    and "wisp_events d' = set_where ev_issue_id ev_issue_id_update oldID newID (wisp_events d)
           @ [renamed_event newID actor oldID]"
    and "wisp_labels d' = set_where lbl_issue_id lbl_issue_id_update oldID newID (wisp_labels d)"
    and "wisp_comments d' = set_where cmt_issue_id cmt_issue_id_update oldID newID (wisp_comments d)"
    and "issues d' = issues d \<and> dependencies d' = dependencies d \<and> events d' = events d
         \<and> labels d' = labels d \<and> comments d' = comments d
         \<and> issue_snapshots d' = issue_snapshots d
         \<and> compaction_snapshots d' = compaction_snapshots d
         \<and> child_counters d' = child_counters d"
proof -
  from assms obtain n rows' where
    up: "update_primary fails now (wisps d) oldID newID issue = Inr (n, rows')"
    by (auto simp: updateWispID_def split: sum.splits)
  from assms up have n: "n \<noteq> 0"
    by (auto simp: updateWispID_def split: option.splits if_splits)
  from assms up n have "exec_all fails
            (wisp_cascade oldID newID @
             [(InsertRenameEvent, ''failed to record wisp rename event: '',
                \<lambda>d. d\<lparr>wisp_events := wisp_events d @ [renamed_event newID actor oldID]\<rparr>)])
            (d\<lparr>wisps := rows'\<rparr>) = Inr d'"
    by (auto simp: updateWispID_def split: option.splits if_splits)
  from exec_all_Inr [OF this]
  have d': "d' = foldl (\<lambda>d stmt. snd (snd stmt) d) (d\<lparr>wisps := rows'\<rparr>)
            (wisp_cascade oldID newID @
             [(InsertRenameEvent, ''failed to record wisp rename event: '',
                \<lambda>d. d\<lparr>wisp_events := wisp_events d @ [renamed_event newID actor oldID]\<rparr>)])" .
  have "wisps d' = rows'"
    unfolding d' by (simp add: wisp_cascade_def)
  with up n show "\<exists>n rows'. update_primary fails now (wisps d) oldID newID issue = Inr (n, rows')
            \<and> n \<noteq> 0 \<and> wisps d' = rows'"
    by blast
  show "wisp_dependencies d' = set_where dep_depends_on_id dep_depends_on_id_update oldID newID
           (set_where dep_issue_id dep_issue_id_update oldID newID (wisp_dependencies d))"
    unfolding d' by (simp add: wisp_cascade_def)
  show "wisp_events d' = set_where ev_issue_id ev_issue_id_update oldID newID (wisp_events d)
           @ [renamed_event newID actor oldID]"
    unfolding d' by (simp add: wisp_cascade_def)
  show "wisp_labels d' = set_where lbl_issue_id lbl_issue_id_update oldID newID (wisp_labels d)"
    unfolding d' by (simp add: wisp_cascade_def)
  show "wisp_comments d' = set_where cmt_issue_id cmt_issue_id_update oldID newID (wisp_comments d)"
    unfolding d' by (simp add: wisp_cascade_def)
  show "issues d' = issues d \<and> dependencies d' = dependencies d \<and> events d' = events d
         \<and> labels d' = labels d \<and> comments d' = comments d
         \<and> issue_snapshots d' = issue_snapshots d
         \<and> compaction_snapshots d' = compaction_snapshots d
         \<and> child_counters d' = child_counters d"
    unfolding d' by (simp add: wisp_cascade_def)
qed

lemma UpdateIssueID_committed:
  assumes "UpdateIssueID fails now c oldID newID issue actor = (None, c')"
  shows "(if isActiveWisp c oldID
          then updateWispID fails now (tables c) oldID newID issue actor
          else updateIssueID fails now (tables c) oldID newID issue actor) = Inr (tables c')
       \<and> foreign_key_checks c'"
  using assms
  by (auto simp: UpdateIssueID_def Let_def split: option.splits sum.splits)

lemma rename_events_counted:
  "length (filter (\<lambda>r. ev_event_type r = ''renamed'' \<and> ev_old_value r = Some oldID
                        \<and> ev_new_value r = Some newID)
             (set_where ev_issue_id ev_issue_id_update oldID newID evs @ [renamed_event newID actor oldID]))
     = Suc (length (filter (\<lambda>r. ev_event_type r = ''renamed'' \<and> ev_old_value r = Some oldID
                                \<and> ev_new_value r = Some newID) evs))"
proof -
  have "length (filter (\<lambda>r. ev_event_type r = ''renamed'' \<and> ev_old_value r = Some oldID
                        \<and> ev_new_value r = Some newID)
             (set_where ev_issue_id ev_issue_id_update oldID newID evs))
     = length (filter (\<lambda>r. ev_event_type r = ''renamed'' \<and> ev_old_value r = Some oldID
                                \<and> ev_new_value r = Some newID) evs)"
    by (induction evs) (simp_all add: set_where_def)
  then show ?thesis
    by (simp add: renamed_event_def)
qed

lemma events_clean:
  assumes neq: "oldID \<noteq> newID"
  shows "list_all (\<lambda>r. ev_issue_id r \<noteq> oldID)
           (set_where ev_issue_id ev_issue_id_update oldID newID evs @ [renamed_event newID actor oldID])"
proof -
  have "list_all (\<lambda>r. ev_issue_id r \<noteq> oldID) (set_where ev_issue_id ev_issue_id_update oldID newID evs)"
    by (rule set_where_no_old) (simp_all add: neq)
  moreover have "ev_issue_id (renamed_event newID actor oldID) \<noteq> oldID"
    using neq by (simp add: renamed_event_def)
  ultimately show ?thesis by simp
qed

lemma deps_clean:
  assumes neq: "oldID \<noteq> newID"
  shows "list_all (\<lambda>r. dep_issue_id r \<noteq> oldID)
           (set_where dep_depends_on_id dep_depends_on_id_update oldID newID
             (set_where dep_issue_id dep_issue_id_update oldID newID deps))
       \<and> list_all (\<lambda>r. dep_depends_on_id r \<noteq> oldID)
           (set_where dep_depends_on_id dep_depends_on_id_update oldID newID
             (set_where dep_issue_id dep_issue_id_update oldID newID deps))"
proof
  have inner: "list_all (\<lambda>r. dep_issue_id r \<noteq> oldID)
                 (set_where dep_issue_id dep_issue_id_update oldID newID deps)"
    by (rule set_where_no_old) (simp_all add: neq)
  show "list_all (\<lambda>r. dep_issue_id r \<noteq> oldID)
           (set_where dep_depends_on_id dep_depends_on_id_update oldID newID
             (set_where dep_issue_id dep_issue_id_update oldID newID deps))"
    by (rule set_where_keeps_clean [OF _ inner]) simp
  show "list_all (\<lambda>r. dep_depends_on_id r \<noteq> oldID)
           (set_where dep_depends_on_id dep_depends_on_id_update oldID newID
             (set_where dep_issue_id dep_issue_id_update oldID newID deps))"
    by (rule set_where_no_old) (simp_all add: neq)
qed

lemma rename_issue_part:
  assumes ok: "UpdateIssueID fails now c oldID newID issue actor = (None, c')"
      and neq: "oldID \<noteq> newID"
      and pk: "distinct (map iss_id (issues (tables c)))"
      and regular: "\<not> isActiveWisp c oldID"
  shows "\<not> list_ex (\<lambda>r. iss_id r = oldID) (issues (tables c'))
       \<and> list_all (\<lambda>r. dep_issue_id r \<noteq> oldID) (dependencies (tables c'))
       \<and> list_all (\<lambda>r. dep_depends_on_id r \<noteq> oldID) (dependencies (tables c'))
       \<and> list_all (\<lambda>r. ev_issue_id r \<noteq> oldID) (events (tables c'))
       \<and> list_all (\<lambda>r. lbl_issue_id r \<noteq> oldID) (labels (tables c'))
       \<and> list_all (\<lambda>r. cmt_issue_id r \<noteq> oldID) (comments (tables c'))
       \<and> list_all (\<lambda>r. snap_issue_id r \<noteq> oldID) (issue_snapshots (tables c'))
       \<and> list_all (\<lambda>r. snap_issue_id r \<noteq> oldID) (compaction_snapshots (tables c'))
       \<and> list_all (\<lambda>r. cc_parent_id r \<noteq> oldID) (child_counters (tables c'))
       \<and> list_all (\<lambda>r. dep_issue_id r \<noteq> oldID) (wisp_dependencies (tables c'))
       \<and> list_all (\<lambda>r. dep_depends_on_id r \<noteq> oldID) (wisp_dependencies (tables c'))
       \<and> list_all (\<lambda>r. ev_issue_id r \<noteq> oldID) (wisp_events (tables c'))
       \<and> list_all (\<lambda>r. lbl_issue_id r \<noteq> oldID) (wisp_labels (tables c'))
       \<and> list_all (\<lambda>r. cmt_issue_id r \<noteq> oldID) (wisp_comments (tables c'))
       \<and> length (filter (\<lambda>r. iss_id r = newID) (issues (tables c'))) = 1
       \<and> length (filter (\<lambda>r. ev_event_type r = ''renamed'' \<and> ev_old_value r = Some oldID
                              \<and> ev_new_value r = Some newID) (events (tables c')))
           = Suc (length (filter (\<lambda>r. ev_event_type r = ''renamed'' \<and> ev_old_value r = Some oldID
                                      \<and> ev_new_value r = Some newID) (events (tables c))))"
proof -
  from UpdateIssueID_committed [OF ok] regular
  have run: "updateIssueID fails now (tables c) oldID newID issue actor = Inr (tables c')"
    by simp
  note t = updateIssueID_tables [OF run]
  from t(1) obtain n rows' where
    up: "update_primary fails now (issues (tables c)) oldID newID issue = Inr (n, rows')"
    and n: "n \<noteq> 0" and rows': "issues (tables c') = rows'"
    by blast
  from update_primary_renames [OF up n pk neq] rows'
  have primary: "\<not> list_ex (\<lambda>r. iss_id r = oldID) (issues (tables c'))"
    "length (filter (\<lambda>r. iss_id r = newID) (issues (tables c'))) = 1"
    by simp_all
  have deps: "list_all (\<lambda>r. dep_issue_id r \<noteq> oldID) (dependencies (tables c'))"
    "list_all (\<lambda>r. dep_depends_on_id r \<noteq> oldID) (dependencies (tables c'))"
    by (simp_all only: t(2) deps_clean [OF neq])
  have evs: "list_all (\<lambda>r. ev_issue_id r \<noteq> oldID) (events (tables c'))"
    unfolding t(3) by (rule events_clean [OF neq])
  have lbls: "list_all (\<lambda>r. lbl_issue_id r \<noteq> oldID) (labels (tables c'))"
    unfolding t(4) by (rule set_where_no_old) (simp_all add: neq)
  have cmts: "list_all (\<lambda>r. cmt_issue_id r \<noteq> oldID) (comments (tables c'))"
    unfolding t(5) by (rule set_where_no_old) (simp_all add: neq)
  have snaps: "list_all (\<lambda>r. snap_issue_id r \<noteq> oldID) (issue_snapshots (tables c'))"
    unfolding t(6) by (rule set_where_no_old) (simp_all add: neq)
  have csnaps: "list_all (\<lambda>r. snap_issue_id r \<noteq> oldID) (compaction_snapshots (tables c'))"
    unfolding t(7) by (rule set_where_no_old) (simp_all add: neq)
  have ctrs: "list_all (\<lambda>r. cc_parent_id r \<noteq> oldID) (child_counters (tables c'))"
    unfolding t(8) by (rule set_where_no_old) (simp_all add: neq)
  have wdeps: "list_all (\<lambda>r. dep_issue_id r \<noteq> oldID) (wisp_dependencies (tables c'))"
    "list_all (\<lambda>r. dep_depends_on_id r \<noteq> oldID) (wisp_dependencies (tables c'))"
    by (simp_all only: t(10) deps_clean [OF neq])
  have wevs: "list_all (\<lambda>r. ev_issue_id r \<noteq> oldID) (wisp_events (tables c'))"
    unfolding t(11) by (rule set_where_no_old) (simp_all add: neq)
  have wlbls: "list_all (\<lambda>r. lbl_issue_id r \<noteq> oldID) (wisp_labels (tables c'))"
    unfolding t(12) by (rule set_where_no_old) (simp_all add: neq)
  have wcmts: "list_all (\<lambda>r. cmt_issue_id r \<noteq> oldID) (wisp_comments (tables c'))"
    unfolding t(13) by (rule set_where_no_old) (simp_all add: neq)
  have counted: "length (filter (\<lambda>r. ev_event_type r = ''renamed'' \<and> ev_old_value r = Some oldID
                              \<and> ev_new_value r = Some newID) (events (tables c')))
           = Suc (length (filter (\<lambda>r. ev_event_type r = ''renamed'' \<and> ev_old_value r = Some oldID
                                      \<and> ev_new_value r = Some newID) (events (tables c))))"
    unfolding t(3) by (rule rename_events_counted)
  show ?thesis
    by (intro conjI) (rule primary deps evs lbls cmts snaps csnaps ctrs wdeps wevs wlbls wcmts counted)+
qed

lemma rename_wisp_part:
  assumes ok: "UpdateIssueID fails now c oldID newID issue actor = (None, c')"
      and neq: "oldID \<noteq> newID"
      and pk: "distinct (map iss_id (wisps (tables c)))"
      and wisp: "isActiveWisp c oldID"
  shows "\<not> list_ex (\<lambda>r. iss_id r = oldID) (wisps (tables c'))
       \<and> list_all (\<lambda>r. dep_issue_id r \<noteq> oldID) (wisp_dependencies (tables c'))
       \<and> list_all (\<lambda>r. dep_depends_on_id r \<noteq> oldID) (wisp_dependencies (tables c'))
       \<and> list_all (\<lambda>r. ev_issue_id r \<noteq> oldID) (wisp_events (tables c'))
       \<and> list_all (\<lambda>r. lbl_issue_id r \<noteq> oldID) (wisp_labels (tables c'))
       \<and> list_all (\<lambda>r. cmt_issue_id r \<noteq> oldID) (wisp_comments (tables c'))
       \<and> length (filter (\<lambda>r. iss_id r = newID) (wisps (tables c'))) = 1
       \<and> length (filter (\<lambda>r. ev_event_type r = ''renamed'' \<and> ev_old_value r = Some oldID
                              \<and> ev_new_value r = Some newID) (wisp_events (tables c')))
           = Suc (length (filter (\<lambda>r. ev_event_type r = ''renamed'' \<and> ev_old_value r = Some oldID
                                      \<and> ev_new_value r = Some newID) (wisp_events (tables c))))
       \<and> issues (tables c') = issues (tables c)
       \<and> dependencies (tables c') = dependencies (tables c)
       \<and> events (tables c') = events (tables c)
       \<and> labels (tables c') = labels (tables c)
       \<and> comments (tables c') = comments (tables c)
       \<and> issue_snapshots (tables c') = issue_snapshots (tables c)
       \<and> compaction_snapshots (tables c') = compaction_snapshots (tables c)
       \<and> child_counters (tables c') = child_counters (tables c)"
proof -
  from UpdateIssueID_committed [OF ok] wisp
  have run: "updateWispID fails now (tables c) oldID newID issue actor = Inr (tables c')"
    by simp
  note t = updateWispID_tables [OF run]
  from t(1) obtain n rows' where
    up: "update_primary fails now (wisps (tables c)) oldID newID issue = Inr (n, rows')"
    and n: "n \<noteq> 0" and rows': "wisps (tables c') = rows'"
    by blast
  from update_primary_renames [OF up n pk neq] rows'
  have primary: "\<not> list_ex (\<lambda>r. iss_id r = oldID) (wisps (tables c'))"
    "length (filter (\<lambda>r. iss_id r = newID) (wisps (tables c'))) = 1"
    by simp_all
  have wdeps: "list_all (\<lambda>r. dep_issue_id r \<noteq> oldID) (wisp_dependencies (tables c'))"
    "list_all (\<lambda>r. dep_depends_on_id r \<noteq> oldID) (wisp_dependencies (tables c'))"
    by (simp_all only: t(2) deps_clean [OF neq])
  have wevs: "list_all (\<lambda>r. ev_issue_id r \<noteq> oldID) (wisp_events (tables c'))"
    unfolding t(3) by (rule events_clean [OF neq])
  have wlbls: "list_all (\<lambda>r. lbl_issue_id r \<noteq> oldID) (wisp_labels (tables c'))"
    unfolding t(4) by (rule set_where_no_old) (simp_all add: neq)
  have wcmts: "list_all (\<lambda>r. cmt_issue_id r \<noteq> oldID) (wisp_comments (tables c'))"
    unfolding t(5) by (rule set_where_no_old) (simp_all add: neq)
  have counted: "length (filter (\<lambda>r. ev_event_type r = ''renamed'' \<and> ev_old_value r = Some oldID
                              \<and> ev_new_value r = Some newID) (wisp_events (tables c')))
           = Suc (length (filter (\<lambda>r. ev_event_type r = ''renamed'' \<and> ev_old_value r = Some oldID
                                      \<and> ev_new_value r = Some newID) (wisp_events (tables c))))"
    unfolding t(3) by (rule rename_events_counted)
  from t(6) have rest:
    "issues (tables c') = issues (tables c)"
    "dependencies (tables c') = dependencies (tables c)"
    "events (tables c') = events (tables c)"
    "labels (tables c') = labels (tables c)"
    "comments (tables c') = comments (tables c)"
    "issue_snapshots (tables c') = issue_snapshots (tables c)"
    "compaction_snapshots (tables c') = compaction_snapshots (tables c)"
    "child_counters (tables c') = child_counters (tables c)"
    by simp_all
  show ?thesis
    by (intro conjI) (rule primary wdeps wevs wlbls wcmts counted rest)+
qed

lemma update_primary_absent:
  assumes absent: "\<not> list_ex (\<lambda>r. iss_id r = oldID) rows"
  shows "update_primary fails now rows oldID newID issue
           = (case fails UpdatePrimary of Some e \<Rightarrow> Inl e | None \<Rightarrow> Inr (0, rows))"
proof -
  from absent have none: "filter (\<lambda>r. iss_id r = oldID) rows = []"
    by (auto simp: list_ex_iff filter_empty_conv)
  from absent have same: "map (\<lambda>r. if iss_id r = oldID
                              then r\<lparr>iss_id := newID, iss_title := Title issue,
                                     iss_description := Description issue,
                                     iss_design := Design issue,
                                     iss_acceptance_criteria := AcceptanceCriteria issue,
                                     iss_notes := Notes issue, iss_updated_at := now\<rparr>
                              else r) rows = rows"
    by (induction rows) simp_all
  show ?thesis
    using absent by (simp add: update_primary_def none same split: option.splits)
qed

lemma updateIssueID_absent:
  assumes absent: "\<not> list_ex (\<lambda>r. iss_id r = oldID) (issues d)"
  shows "\<exists>e. updateIssueID fails now d oldID newID issue actor = Inl e
           \<and> (fails UpdatePrimary = None \<and> fails RowsAffected = None
                \<longrightarrow> e = Err (''issue not found: '' @ oldID))"
  by (simp add: updateIssueID_def update_primary_absent [OF absent] split: option.splits)

lemma UpdateIssueID_atomic:
  "fst (UpdateIssueID fails now c oldID newID issue actor) \<noteq> None \<Longrightarrow>
     tables (snd (UpdateIssueID fails now c oldID newID issue actor)) = tables c"
  by (auto simp: UpdateIssueID_def Let_def split: option.splits sum.splits)

text \<open>
  Claim C3. When \<open>oldID\<close> is in neither \<open>issues\<close> nor \<open>wisps\<close>, \<open>UpdateIssueID\<close> returns an
  error and leaves every table as it was, whatever the engine does; when the engine
  executes the statements up to the primary UPDATE, the error is
  \<open>issue not found: oldID\<close>.
\<close>

theorem UpdateIssueID_unknown_id:
  assumes no_issue: "\<not> list_ex (\<lambda>r. iss_id r = oldID) (issues (tables c))"
      and no_wisp: "\<not> list_ex (\<lambda>r. iss_id r = oldID) (wisps (tables c))"
  shows "fst (UpdateIssueID fails now c oldID newID issue actor) \<noteq> None
       \<and> tables (snd (UpdateIssueID fails now c oldID newID issue actor)) = tables c
       \<and> (fails BeginTx = None \<and> fails DisableFK = None \<and> fails UpdatePrimary = None
            \<and> fails RowsAffected = None
           \<longrightarrow> fst (UpdateIssueID fails now c oldID newID issue actor)
                 = Some (Err (''issue not found: '' @ oldID)))"
proof -
  from no_wisp have regular: "\<not> isActiveWisp c oldID"
    by (simp add: isActiveWisp_def)
  from updateIssueID_absent [OF no_issue, of fails now newID issue actor] obtain e where
    e: "updateIssueID fails now (tables c) oldID newID issue actor = Inl e"
    and named: "fails UpdatePrimary = None \<and> fails RowsAffected = None
                \<longrightarrow> e = Err (''issue not found: '' @ oldID)"
    by blast
  have failed: "fst (UpdateIssueID fails now c oldID newID issue actor) \<noteq> None"
    using regular e by (simp add: UpdateIssueID_def Let_def split: option.splits)
  have not_found: "fails BeginTx = None \<and> fails DisableFK = None \<and> fails UpdatePrimary = None
            \<and> fails RowsAffected = None
           \<longrightarrow> fst (UpdateIssueID fails now c oldID newID issue actor)
                 = Some (Err (''issue not found: '' @ oldID))"
    using regular e named by (simp add: UpdateIssueID_def Let_def split: option.splits)
  from failed UpdateIssueID_atomic [OF failed] not_found show ?thesis
    by blast
qed

lemma UpdateIssueID_restores_when_deferred_statement_runs:
  "foreign_key_checks c \<Longrightarrow> fails DeferredEnableFK = None \<Longrightarrow>
     foreign_key_checks (snd (UpdateIssueID fails now c oldID newID issue actor))"
  by (auto simp: UpdateIssueID_def Let_def split: option.splits sum.splits)

text \<open>
  Claim C1, as amended. Let a rename of \<open>oldID\<close> to a different \<open>newID\<close> succeed on tables
  whose primary keys are distinct. If \<open>oldID\<close> is not a wisp (a regular issue): no row of
  \<open>issues\<close> has the old ID, and no row of \<open>dependencies\<close> (either column), \<open>events\<close>,
  \<open>labels\<close>, \<open>comments\<close>, \<open>issue_snapshots\<close>, \<open>compaction_snapshots\<close>, \<open>child_counters\<close>,
  \<open>wisp_dependencies\<close> (either column), \<open>wisp_events\<close>, \<open>wisp_labels\<close> or
  \<open>wisp_comments\<close> references it; exactly one row of \<open>issues\<close> has the new ID; and
  \<open>events\<close> holds exactly one more \<open>renamed\<close> event from \<open>oldID\<close> to \<open>newID\<close> than before.
  If \<open>oldID\<close> is a wisp, the same holds for \<open>wisps\<close> and the wisp-side tables, the event
  is added to \<open>wisp_events\<close>, and the issue-side tables are unchanged.
\<close>

theorem UpdateIssueID_renames_all_references:
  assumes ok: "UpdateIssueID fails now c oldID newID issue actor = (None, c')"
      and neq: "oldID \<noteq> newID"
      and pk_issues: "distinct (map iss_id (issues (tables c)))"
      and pk_wisps: "distinct (map iss_id (wisps (tables c)))"
  shows "(\<not> isActiveWisp c oldID \<longrightarrow>
           \<not> list_ex (\<lambda>r. iss_id r = oldID) (issues (tables c'))
         \<and> list_all (\<lambda>r. dep_issue_id r \<noteq> oldID) (dependencies (tables c'))
         \<and> list_all (\<lambda>r. dep_depends_on_id r \<noteq> oldID) (dependencies (tables c'))
         \<and> list_all (\<lambda>r. ev_issue_id r \<noteq> oldID) (events (tables c'))
         \<and> list_all (\<lambda>r. lbl_issue_id r \<noteq> oldID) (labels (tables c'))
         \<and> list_all (\<lambda>r. cmt_issue_id r \<noteq> oldID) (comments (tables c'))
         \<and> list_all (\<lambda>r. snap_issue_id r \<noteq> oldID) (issue_snapshots (tables c'))
         \<and> list_all (\<lambda>r. snap_issue_id r \<noteq> oldID) (compaction_snapshots (tables c'))
         \<and> list_all (\<lambda>r. cc_parent_id r \<noteq> oldID) (child_counters (tables c'))
         \<and> list_all (\<lambda>r. dep_issue_id r \<noteq> oldID) (wisp_dependencies (tables c'))
         \<and> list_all (\<lambda>r. dep_depends_on_id r \<noteq> oldID) (wisp_dependencies (tables c'))
         \<and> list_all (\<lambda>r. ev_issue_id r \<noteq> oldID) (wisp_events (tables c'))
         \<and> list_all (\<lambda>r. lbl_issue_id r \<noteq> oldID) (wisp_labels (tables c'))
         \<and> list_all (\<lambda>r. cmt_issue_id r \<noteq> oldID) (wisp_comments (tables c'))
         \<and> length (filter (\<lambda>r. iss_id r = newID) (issues (tables c'))) = 1
         \<and> length (filter (\<lambda>r. ev_event_type r = ''renamed'' \<and> ev_old_value r = Some oldID
                                \<and> ev_new_value r = Some newID) (events (tables c')))
             = Suc (length (filter (\<lambda>r. ev_event_type r = ''renamed'' \<and> ev_old_value r = Some oldID
                                        \<and> ev_new_value r = Some newID) (events (tables c)))))
       \<and> (isActiveWisp c oldID \<longrightarrow>
           \<not> list_ex (\<lambda>r. iss_id r = oldID) (wisps (tables c'))
         \<and> list_all (\<lambda>r. dep_issue_id r \<noteq> oldID) (wisp_dependencies (tables c'))
         \<and> list_all (\<lambda>r. dep_depends_on_id r \<noteq> oldID) (wisp_dependencies (tables c'))
         \<and> list_all (\<lambda>r. ev_issue_id r \<noteq> oldID) (wisp_events (tables c'))
         \<and> list_all (\<lambda>r. lbl_issue_id r \<noteq> oldID) (wisp_labels (tables c'))
         \<and> list_all (\<lambda>r. cmt_issue_id r \<noteq> oldID) (wisp_comments (tables c'))
         \<and> length (filter (\<lambda>r. iss_id r = newID) (wisps (tables c'))) = 1
         \<and> length (filter (\<lambda>r. ev_event_type r = ''renamed'' \<and> ev_old_value r = Some oldID
                                \<and> ev_new_value r = Some newID) (wisp_events (tables c')))
             = Suc (length (filter (\<lambda>r. ev_event_type r = ''renamed'' \<and> ev_old_value r = Some oldID
                                        \<and> ev_new_value r = Some newID) (wisp_events (tables c))))
         \<and> issues (tables c') = issues (tables c)
         \<and> dependencies (tables c') = dependencies (tables c)
         \<and> events (tables c') = events (tables c)
         \<and> labels (tables c') = labels (tables c)
         \<and> comments (tables c') = comments (tables c)
         \<and> issue_snapshots (tables c') = issue_snapshots (tables c)
         \<and> compaction_snapshots (tables c') = compaction_snapshots (tables c)
         \<and> child_counters (tables c') = child_counters (tables c))"
proof (intro conjI impI)
qed (use rename_issue_part [OF ok neq pk_issues] rename_wisp_part [OF ok neq pk_wisps] in blast)+

theorem UpdateIssueID_renames_all_references_witness:
  "''test-old1'' \<noteq> ''test-new1''
   \<and> distinct (map iss_id (issues (tables tracker)))
   \<and> distinct (map iss_id (wisps (tables tracker)))
   \<and> \<not> isActiveWisp tracker ''test-old1''
   \<and> fst (UpdateIssueID no_faults 2 tracker ''test-old1'' ''test-new1'' test_issue ''test'') = None
   \<and> list_all (\<lambda>r. dep_issue_id r \<noteq> ''test-old1'')
        (wisp_dependencies (tables (snd (UpdateIssueID no_faults 2 tracker ''test-old1'' ''test-new1''
                                          test_issue ''test''))))
   \<and> length (filter (\<lambda>r. iss_id r = ''test-new1'')
        (issues (tables (snd (UpdateIssueID no_faults 2 tracker ''test-old1'' ''test-new1''
                               test_issue ''test''))))) = 1
   \<and> isActiveWisp tracker ''test-wisp-abc''
   \<and> fst (UpdateIssueID no_faults 2 tracker ''test-wisp-abc'' ''test-renamed-wisp'' test_issue ''test'')
       = None
   \<and> length (filter (\<lambda>r. iss_id r = ''test-renamed-wisp'')
        (wisps (tables (snd (UpdateIssueID no_faults 2 tracker ''test-wisp-abc'' ''test-renamed-wisp''
                              test_issue ''test''))))) = 1"
proof -
  let ?issue_run = "UpdateIssueID no_faults 2 tracker ''test-old1'' ''test-new1'' test_issue ''test''"
  let ?wisp_run = "UpdateIssueID no_faults 2 tracker ''test-wisp-abc'' ''test-renamed-wisp'' test_issue ''test''"
  have neq: "''test-old1'' \<noteq> ''test-new1''" and neq_wisp: "''test-wisp-abc'' \<noteq> ''test-renamed-wisp''"
    by simp_all
  have pk_issues: "distinct (map iss_id (issues (tables tracker)))"
    by code_simp
  have pk_wisps: "distinct (map iss_id (wisps (tables tracker)))"
    by code_simp
  have regular: "\<not> isActiveWisp tracker ''test-old1''"
    by code_simp
  have wisp: "isActiveWisp tracker ''test-wisp-abc''"
    by code_simp
  have issue_done: "fst ?issue_run = None"
    by code_simp
  have wisp_done: "fst ?wisp_run = None"
    by code_simp
  from issue_done have issue_ok: "?issue_run = (None, snd ?issue_run)"
    by (simp add: prod_eq_iff)
  from wisp_done have wisp_ok: "?wisp_run = (None, snd ?wisp_run)"
    by (simp add: prod_eq_iff)
  from UpdateIssueID_renames_all_references [OF issue_ok neq pk_issues pk_wisps] regular
  have issue_facts:
    "list_all (\<lambda>r. dep_issue_id r \<noteq> ''test-old1'') (wisp_dependencies (tables (snd ?issue_run)))"
    "length (filter (\<lambda>r. iss_id r = ''test-new1'') (issues (tables (snd ?issue_run)))) = 1"
    by blast+
  from UpdateIssueID_renames_all_references [OF wisp_ok neq_wisp pk_issues pk_wisps] wisp
  have wisp_facts:
    "length (filter (\<lambda>r. iss_id r = ''test-renamed-wisp'') (wisps (tables (snd ?wisp_run)))) = 1"
    by blast
  from neq pk_issues pk_wisps regular issue_done issue_facts wisp wisp_done wisp_facts
  show ?thesis
    by blast
qed

text \<open>
  The claim as first stated has exactly one \<open>renamed\<close> event from \<open>oldID\<close> to \<open>newID\<close>
  after the call. Rename \<open>test-old1\<close> to \<open>test-new1\<close>, back, and to \<open>test-new1\<close> again: each
  call succeeds on a regular issue, each appends its event, and the events of earlier
  renames follow the issue, so two such events exist.
\<close>

theorem UpdateIssueID_second_rename_counterexample:
  "''test-old1'' \<noteq> ''test-new1''
   \<and> fst (UpdateIssueID no_faults 2 tracker ''test-old1'' ''test-new1'' test_issue ''test'') = None
   \<and> fst (UpdateIssueID no_faults 3
              (snd (UpdateIssueID no_faults 2 tracker ''test-old1'' ''test-new1'' test_issue ''test''))
              ''test-new1'' ''test-old1'' test_issue ''test'') = None
   \<and> list_ex (\<lambda>r. iss_id r = ''test-old1'') (issues (tables renamed_there_and_back))
   \<and> \<not> isActiveWisp renamed_there_and_back ''test-old1''
   \<and> distinct (map iss_id (issues (tables renamed_there_and_back)))
   \<and> fst (UpdateIssueID no_faults 4 renamed_there_and_back ''test-old1'' ''test-new1'' test_issue ''test'')
       = None
   \<and> length (filter (\<lambda>r. ev_event_type r = ''renamed'' \<and> ev_old_value r = Some ''test-old1''
                          \<and> ev_new_value r = Some ''test-new1'')
        (events (tables (snd (UpdateIssueID no_faults 4 renamed_there_and_back ''test-old1''
                               ''test-new1'' test_issue ''test''))))) = 2"
  by code_simp

theorem UpdateIssueID_unknown_id_witness:
  "\<not> list_ex (\<lambda>r. iss_id r = ''ghost'') (issues (tables tracker))
   \<and> \<not> list_ex (\<lambda>r. iss_id r = ''ghost'') (wisps (tables tracker))
   \<and> fst (UpdateIssueID no_faults 2 tracker ''ghost'' ''test-new1'' test_issue ''test'')
       = Some (Err ''issue not found: ghost'')
   \<and> tables (snd (UpdateIssueID no_faults 2 tracker ''ghost'' ''test-new1'' test_issue ''test''))
       = tables tracker"
proof -
  have no_issue: "\<not> list_ex (\<lambda>r. iss_id r = ''ghost'') (issues (tables tracker))"
    by code_simp
  have no_wisp: "\<not> list_ex (\<lambda>r. iss_id r = ''ghost'') (wisps (tables tracker))"
    by code_simp
  from UpdateIssueID_unknown_id [OF no_issue no_wisp, of no_faults 2 "''test-new1''" test_issue "''test''"]
    no_issue no_wisp
  show ?thesis
    by (simp add: no_faults_def)
qed

text \<open>
  Claim C2 at its failing input. The context is cancelled after
  \<open>SET FOREIGN_KEY_CHECKS = 0\<close> has run: the UPDATE fails, and so does the deferred
  \<open>SET FOREIGN_KEY_CHECKS = 1\<close>, which is issued with the same context and whose error is
  dropped. The call returns with the tables untouched and the session's
  \<open>FOREIGN_KEY_CHECKS\<close> cleared, although it was set before the call.
\<close>

theorem UpdateIssueID_cancelled_context_leaves_checks_off:
  "foreign_key_checks tracker
   \<and> UpdateIssueID context_cancelled_after_disable 2 tracker ''test-old1'' ''test-new1'' test_issue ''test''
       = (Some (Wrap ''failed to update issue ID: '' (Err ''context canceled'') []),
          tracker\<lparr>foreign_key_checks := False\<rparr>)
   \<and> \<not> foreign_key_checks
          (snd (UpdateIssueID context_cancelled_after_disable 2 tracker ''test-old1'' ''test-new1''
                 test_issue ''test''))"
  by code_simp

subsection \<open>Renaming a prefix in the dependencies\<close>

lemma sql_LIKE_any: "sql_LIKE s ''%''"
  by (induction s) simp_all

lemma sql_LIKE_literal_prefix:
  assumes literal: "CHR ''%'' \<notin> set old" "CHR ''_'' \<notin> set old" "CHR 0x5C \<notin> set old"
  shows "sql_LIKE s (old @ ''%'') = HasPrefix s old"
  using literal
proof (induction old arbitrary: s)
  case Nil
  then show ?case by (simp add: sql_LIKE_any)
next
  case (Cons p ps)
  then have p: "p \<noteq> CHR ''%''" "p \<noteq> CHR ''_''" "p \<noteq> CHR 0x5C"
    and ih: "\<And>s. sql_LIKE s (ps @ ''%'') = HasPrefix s ps"
    by auto
  show ?case
  proof (cases s)
    case Nil
    with p show ?thesis by simp
  next
    case (Cons c cs)
    with p ih [of cs] show ?thesis by auto
  qed
qed

lemma HasPrefix_append: "HasPrefix s old \<longleftrightarrow> (\<exists>rest. s = old @ rest)"
proof (induction s old rule: HasPrefix.induct)
  case (1 s)
  then show ?case by simp
next
  case (2 p ps)
  then show ?case by simp
next
  case (3 c cs p ps)
  then show ?case by auto
qed

lemma rename_rows_literal:
  assumes literal: "CHR ''%'' \<notin> set oldPrefix" "CHR ''_'' \<notin> set oldPrefix" "CHR 0x5C \<notin> set oldPrefix"
  shows "map (\<lambda>r. if sql_LIKE (dep_depends_on_id r) (sql_CONCAT oldPrefix ''%'')
                 then r\<lparr>dep_depends_on_id :=
                          sql_CONCAT newPrefix
                            (sql_SUBSTRING (dep_depends_on_id r) (sql_LENGTH oldPrefix + 1))\<rparr>
                 else r)
        (map (\<lambda>r. if sql_LIKE (dep_issue_id r) (sql_CONCAT oldPrefix ''%'')
                   then r\<lparr>dep_issue_id :=
                            sql_CONCAT newPrefix
                              (sql_SUBSTRING (dep_issue_id r) (sql_LENGTH oldPrefix + 1))\<rparr>
                   else r) rows)
       = map (\<lambda>r. r\<lparr>dep_issue_id :=
                          (if HasPrefix (dep_issue_id r) oldPrefix
                           then newPrefix @ drop (length oldPrefix) (dep_issue_id r)
                           else dep_issue_id r),
                        dep_depends_on_id :=
                          (if HasPrefix (dep_depends_on_id r) oldPrefix
                           then newPrefix @ drop (length oldPrefix) (dep_depends_on_id r)
                           else dep_depends_on_id r)\<rparr>) rows"
proof (induction rows)
  case Nil
  show ?case by simp
next
  case (Cons r rows)
  show ?case
    by (cases "HasPrefix (dep_issue_id r) oldPrefix"; cases "HasPrefix (dep_depends_on_id r) oldPrefix")
       (simp_all add: Cons.IH sql_CONCAT_def sql_SUBSTRING_def sql_LENGTH_def
          sql_LIKE_literal_prefix [OF literal])
qed

text \<open>
  For a prefix without \<open>%\<close>, \<open>_\<close> and backslash the two statements do what the claim says:
  a column value that starts with the old prefix has that prefix replaced and its rest
  kept, every other value is left as it is.
\<close>

lemma RenameDependencyPrefix_literal:
  assumes literal: "CHR ''%'' \<notin> set oldPrefix" "CHR ''_'' \<notin> set oldPrefix" "CHR 0x5C \<notin> set oldPrefix"
      and ok: "RenameDependencyPrefix fails c oldPrefix newPrefix = (None, c')"
  shows "dependencies (tables c') =
           map (\<lambda>r. r\<lparr>dep_issue_id :=
                          (if HasPrefix (dep_issue_id r) oldPrefix
                           then newPrefix @ drop (length oldPrefix) (dep_issue_id r)
                           else dep_issue_id r),
                        dep_depends_on_id :=
                          (if HasPrefix (dep_depends_on_id r) oldPrefix
                           then newPrefix @ drop (length oldPrefix) (dep_depends_on_id r)
                           else dep_depends_on_id r)\<rparr>)
             (dependencies (tables c))"
proof -
  from ok have "dependencies (tables c') =
      map (\<lambda>r. if sql_LIKE (dep_depends_on_id r) (sql_CONCAT oldPrefix ''%'')
                 then r\<lparr>dep_depends_on_id :=
                          sql_CONCAT newPrefix
                            (sql_SUBSTRING (dep_depends_on_id r) (sql_LENGTH oldPrefix + 1))\<rparr>
                 else r)
        (map (\<lambda>r. if sql_LIKE (dep_issue_id r) (sql_CONCAT oldPrefix ''%'')
                   then r\<lparr>dep_issue_id :=
                            sql_CONCAT newPrefix
                              (sql_SUBSTRING (dep_issue_id r) (sql_LENGTH oldPrefix + 1))\<rparr>
                   else r) (dependencies (tables c)))"
    by (auto simp: RenameDependencyPrefix_def split: option.splits)
  then show ?thesis
    by (simp only: rename_rows_literal [OF literal])
qed

text \<open>
  Claim C9 at its failing input. The old prefix \<open>web_ui-\<close> has the wildcard \<open>_\<close>. The
  \<open>issue_id\<close> \<open>webxui-7\<close> does not start with that prefix, yet it matches
  \<open>LIKE 'web_ui-%'\<close> and is rewritten to \<open>portal-7\<close>.
\<close>

theorem RenameDependencyPrefix_wildcard_renames_other_prefix:
  "\<not> HasPrefix ''webxui-7'' ''web_ui-''
   \<and> RenameDependencyPrefix no_faults other_project_db ''web_ui-'' ''portal-''
       = (None,
          other_project_db
            \<lparr>tables := empty_database
               \<lparr>dependencies :=
                  [\<lparr>dep_issue_id = ''portal-7'', dep_depends_on_id = ''portal-2'',
                    dep_type = ''blocks''\<rparr>]\<rparr>\<rparr>)"
  by code_simp

subsection \<open>The identifier classifier against its test table\<close>

text \<open>
  The rule of the spec against the rows of \<open>TestIsHashID\<close>. It gives the expected result
  on eleven of the twelve rows. The row \<open>hash 5+ chars all digits\<close> expects \<open>bd-12345\<close> to
  be hash-based; the rule asks for a letter in a leaf of five or more characters and
  rejects it. The function is not in the sources, and twelve rows do not fix what it does
  on every other identifier.
\<close>

lemma isHashID_spec_rule_against_TestIsHashID:
  "filter (\<lambda>row. isHashID (fst row) \<noteq> snd row) TestIsHashID = [(''bd-12345'', True)]"
  by code_simp

subsection \<open>The wrappers around the AEAD\<close>

text \<open>
  What the wrappers around the AEAD do, for any AEAD: an input shorter than the nonce is
  refused, the empty password is stored as NULL, an empty ciphertext reads as the empty
  password, and what \<open>encryptWithKey\<close> returns decrypts to the plaintext under the same
  key when opening inverts sealing. That another key is refused is the AEAD's
  authentication, a property of AES-GCM which the definitions take as given.
\<close>

lemma decryptWithKey_too_short:
  "length encrypted < gcmNonceSize \<Longrightarrow> \<exists>e. decryptWithKey A encrypted key = Inl e"
  by (simp add: decryptWithKey_def split: option.splits)

lemma encryptPassword_empty: "encryptPassword A rd s [] = Inr None"
  by (simp add: encryptPassword_def)

lemma decryptPassword_empty:
  "decryptPassword A s None = Inr [] \<and> decryptPassword A s (Some []) = Inr []"
  by (simp add: decryptPassword_def)

lemma encrypt_decrypt_round_trip:
  assumes inverse: "\<And>nonce. gcm_open A key nonce (gcm_seal A key nonce plaintext) = Some plaintext"
      and key: "length key = 32"
      and random: "gcmNonceSize \<le> length rd"
  shows "\<exists>encrypted rd'. encryptWithKey A rd plaintext key = (Inr encrypted, rd')
           \<and> decryptWithKey A encrypted key = Inr plaintext"
proof -
  have cipher: "aes_NewCipher key = None"
    using key by (simp add: aes_NewCipher_def)
  have nonce: "length (take gcmNonceSize rd) = gcmNonceSize"
    using random by simp
  have enc: "encryptWithKey A rd plaintext key
      = (Inr (take gcmNonceSize rd @ gcm_seal A key (take gcmNonceSize rd) plaintext),
         drop gcmNonceSize rd)"
    using random by (simp add: encryptWithKey_def cipher io_ReadFull_def)
  have "decryptWithKey A (take gcmNonceSize rd @ gcm_seal A key (take gcmNonceSize rd) plaintext) key
      = Inr plaintext"
    using nonce by (simp add: decryptWithKey_def cipher inverse)
  with enc show ?thesis by blast
qed

end
